theory Spec2Isabelle
  imports Complex_Main "HOL-Library.Multiset"
begin

section \<open>JavaScript values used by the question service\<close>

text \<open>
  The service keeps all of its state in \<^verbatim>\<open>localStorage\<close>, which holds text. Numbers are
  written with \<^verbatim>\<open>toString()\<close> and read back with \<^verbatim>\<open>parseInt(s, 10)\<close>; a read that finds
  no leading digits gives \<^verbatim>\<open>NaN\<close>, and every comparison with \<^verbatim>\<open>NaN\<close> is false. Numbers are
  modelled as exact integers plus \<^verbatim>\<open>NaN\<close> (all quantities of the program are millisecond
  time stamps and small counters, far inside the range where JavaScript numbers are exact
  and print as plain decimals).
\<close>

datatype number = NaN | Num int

fun gt :: "number \<Rightarrow> number \<Rightarrow> bool" where
  "gt (Num a) (Num b) = (a > b)"
| "gt _ _ = False"

fun ge :: "number \<Rightarrow> number \<Rightarrow> bool" where
  "ge (Num a) (Num b) = (a \<ge> b)"
| "ge _ _ = False"

fun sub :: "number \<Rightarrow> number \<Rightarrow> number" where
  "sub (Num a) (Num b) = Num (a - b)"
| "sub _ _ = NaN"

fun add :: "number \<Rightarrow> number \<Rightarrow> number" where
  "add (Num a) (Num b) = Num (a + b)"
| "add _ _ = NaN"

definition digit_char :: "nat \<Rightarrow> char" where
  "digit_char d = char_of (48 + d)"

fun nat_digits :: "nat \<Rightarrow> string" where
  "nat_digits n =
     (if n < 10 then [digit_char n] else nat_digits (n div 10) @ [digit_char (n mod 10)])"

declare nat_digits.simps [simp del]

text \<open>\<^verbatim>\<open>Number.prototype.toString()\<close> on an integer or \<^verbatim>\<open>NaN\<close>.\<close>

fun toString :: "number \<Rightarrow> string" where
  "toString NaN = ''NaN''"
| "toString (Num i) = (if i < 0 then CHR ''-'' # nat_digits (nat (- i)) else nat_digits (nat i))"

definition is_space :: "char \<Rightarrow> bool" where
  "is_space c = (c \<in> set [CHR 0x09, CHR 0x0A, CHR 0x0B, CHR 0x0C, CHR 0x0D, CHR '' ''])"

definition is_digit :: "char \<Rightarrow> bool" where
  "is_digit c = (48 \<le> (of_char c :: nat) \<and> (of_char c :: nat) \<le> 57)"

definition digits_value :: "string \<Rightarrow> nat" where
  "digits_value ds = foldl (\<lambda>acc c. 10 * acc + (of_char c - 48)) 0 ds"

text \<open>
  \<^verbatim>\<open>parseInt(s, 10)\<close>: leading white space is skipped, one sign is accepted, then the
  longest run of decimal digits is read; no digit at all gives \<^verbatim>\<open>NaN\<close>.
\<close>

definition parseInt :: "string \<Rightarrow> number" where
  "parseInt s =
     (let t = dropWhile is_space s;
          neg = (case t of [] \<Rightarrow> False | c # _ \<Rightarrow> c = CHR ''-'');
          u = (case t of [] \<Rightarrow> [] | c # r \<Rightarrow> if c = CHR ''-'' \<or> c = CHR ''+'' then r else t);
          ds = takeWhile is_digit u
      in if ds = [] then NaN
         else if neg then Num (- int (digits_value ds)) else Num (int (digits_value ds)))"

section \<open>Questions\<close>

text \<open>
  The two interfaces of \<^verbatim>\<open>questionService.ts\<close>. The fields \<^verbatim>\<open>id\<close> and \<^verbatim>\<open>value\<close> carry a
  prime, and the fields of the raw record that share a name with the formatted one carry
  the prefix \<^verbatim>\<open>api_\<close>. At run time \<^verbatim>\<open>difficulty\<close> is the string the record came with,
  so it stays a string here. \<^verbatim>\<open>correctAnswer\<close> is an integer: \<^verbatim>\<open>findIndex\<close> answers -1
  when nothing matches.
\<close>

record ApiQuestion =
  api_category :: string
  api_type :: string
  api_difficulty :: string
  api_question :: string
  correct_answer :: string
  incorrect_answers :: "string list"

record FormattedQuestion =
  id' :: int
  question :: string
  options :: "string list"
  correctAnswer :: int
  category :: string
  difficulty :: string
  value' :: int

text \<open>
  The object literal \<^verbatim>\<open>difficultyValueMap\<close>, read by one of its own keys; any other key
  gives \<open>None\<close>, which stands for \<^verbatim>\<open>undefined\<close>. A plain object also answers to the names
  it inherits from \<^verbatim>\<open>Object.prototype\<close> (\<^verbatim>\<open>constructor\<close>, \<^verbatim>\<open>toString\<close>, ...): for those the
  code finds a value and reads \<^verbatim>\<open>undefined\<close> at the slot instead of throwing. Records with
  such a difficulty are outside this model, and every statement about normalisation below
  is about records whose difficulty is a key of the literal or, for the one record that
  throws, the difficulty \<^verbatim>\<open>expert\<close>, which no object inherits.
\<close>

definition difficultyValueMap :: "string \<Rightarrow> int list option" where
  "difficultyValueMap k =
     (if k = ''easy'' then Some [100, 200, 300, 500, 1000]
      else if k = ''medium'' then Some [2000, 4000, 8000, 16000, 32000]
      else if k = ''hard'' then Some [64000, 125000, 250000, 500000, 1000000]
      else None)"

section \<open>Shuffling\<close>

text \<open>
  \<^verbatim>\<open>shuffleArray\<close> copies the array and runs \<^verbatim>\<open>for (i = length - 1; i > 0; i--)\<close>, drawing
  \<^verbatim>\<open>j = Math.floor(Math.random() * (i + 1))\<close> and swapping positions \<open>i\<close> and \<open>j\<close>. The
  random source is explicit: \<open>rnd i\<close> is the number \<^verbatim>\<open>Math.random()\<close> returns in the
  iteration with index \<open>i\<close>. \<^verbatim>\<open>Math.random()\<close> promises a number in \<open>[0, 1)\<close>; for such
  draws \<open>j \<le> i\<close> and both positions exist.
\<close>

fun shuffle_loop :: "(nat \<Rightarrow> real) \<Rightarrow> nat \<Rightarrow> 'a list \<Rightarrow> 'a list" where
  "shuffle_loop rnd 0 newArray = newArray"
| "shuffle_loop rnd (Suc k) newArray =
     (let i = Suc k;
          j = nat \<lfloor>rnd i * real (i + 1)\<rfloor>
      in shuffle_loop rnd k (newArray[i := newArray ! j, j := newArray ! i]))"

definition shuffleArray :: "(nat \<Rightarrow> real) \<Rightarrow> 'a list \<Rightarrow> 'a list" where
  "shuffleArray rnd array = shuffle_loop rnd (length array - 1) array"

text \<open>\<^verbatim>\<open>Array.prototype.findIndex\<close>: the first position whose element satisfies \<open>P\<close>, or -1.\<close>

fun findIndex_from :: "('a \<Rightarrow> bool) \<Rightarrow> int \<Rightarrow> 'a list \<Rightarrow> int" where
  "findIndex_from P k [] = - 1"
| "findIndex_from P k (x # xs) = (if P x then k else findIndex_from P (k + 1) xs)"

definition findIndex :: "('a \<Rightarrow> bool) \<Rightarrow> 'a list \<Rightarrow> int" where
  "findIndex P xs = findIndex_from P 0 xs"

text \<open>\<^verbatim>\<open>xs.slice(0, n)\<close>: a negative \<open>n\<close> counts from the end.\<close>

definition slice0 :: "'a list \<Rightarrow> int \<Rightarrow> 'a list" where
  "slice0 xs n = (if n < 0 then take (nat (int (length xs) + n)) xs else take (nat n) xs)"

section \<open>Errors\<close>

text \<open>
  Everything the code can throw. \<open>SecurityError\<close> and \<open>QuotaExceededError\<close> come from
  \<^verbatim>\<open>localStorage\<close>, \<open>SyntaxError\<close> from \<^verbatim>\<open>JSON.parse\<close>, \<open>TypeError\<close> from reading a
  property of \<^verbatim>\<open>undefined\<close>, \<open>InvalidFormat\<close> is
  \<^verbatim>\<open>new Error('Question data format is invalid')\<close>, and \<open>AxiosError st\<close> is a rejected
  request, \<open>st\<close> being \<^verbatim>\<open>error.response.status\<close> when the server answered.
\<close>

datatype error =
    SecurityError
  | QuotaExceededError
  | SyntaxError
  | TypeError
  | InvalidFormat
  | AxiosError "int option"

section \<open>Normalising one raw record\<close>

text \<open>
  The callback of \<^verbatim>\<open>allQuestions.map\<close> in \<^verbatim>\<open>fetchQuestions\<close>. \<^verbatim>\<open>decodeHTMLEntities\<close> asks the
  browser's HTML parser and is a parameter. Reading \<^verbatim>\<open>[difficultyIndex]\<close> of an
  \<^verbatim>\<open>undefined\<close> ladder throws a \<open>TypeError\<close>; every ladder has five slots, so the read
  at \<open>index mod 5\<close> is in range.
\<close>

definition formatQuestion ::
  "(string \<Rightarrow> string) \<Rightarrow> (nat \<Rightarrow> real) \<Rightarrow> ApiQuestion \<Rightarrow> nat \<Rightarrow> error + FormattedQuestion" where
  "formatQuestion decodeHTMLEntities rnd q index =
     (if correct_answer q = [] \<or> length (incorrect_answers q) \<noteq> 3 then Inl InvalidFormat
      else
        let allOptions = decodeHTMLEntities (correct_answer q)
                           # map decodeHTMLEntities (incorrect_answers q);
            shuffledOptions = shuffleArray rnd allOptions;
            correctAnswerIndex =
              findIndex (\<lambda>option. option = decodeHTMLEntities (correct_answer q)) shuffledOptions;
            difficultyIndex = index mod 5
        in (case difficultyValueMap (api_difficulty q) of
              None \<Rightarrow> Inl TypeError
            | Some ladder \<Rightarrow>
                Inr \<lparr>id' = int index + 1,
                    question = decodeHTMLEntities (api_question q),
                    options = shuffledOptions,
                    correctAnswer = correctAnswerIndex,
                    category = decodeHTMLEntities (api_category q),
                    difficulty = api_difficulty q,
                    value' = ladder ! difficultyIndex\<rparr>))"

text \<open>
  \<^verbatim>\<open>map\<close> calls the callback on the records in order, with their index; the first throw
  ends it. \<open>rnd index\<close> is the random source of the shuffle of record \<open>index\<close>.
\<close>

fun formatQuestions ::
  "(string \<Rightarrow> string) \<Rightarrow> (nat \<Rightarrow> nat \<Rightarrow> real) \<Rightarrow> nat \<Rightarrow> ApiQuestion list
     \<Rightarrow> error + FormattedQuestion list" where
  "formatQuestions dec rnd index [] = Inr []"
| "formatQuestions dec rnd index (q # qs) =
     (case formatQuestion dec (rnd index) q index of
        Inl e \<Rightarrow> Inl e
      | Inr f \<Rightarrow>
          (case formatQuestions dec rnd (Suc index) qs of
             Inl e \<Rightarrow> Inl e
           | Inr fs \<Rightarrow> Inr (f # fs)))"

section \<open>The fallback pool\<close>

text \<open>
  The literal of \<^verbatim>\<open>getAllFallbackQuestions\<close>, all 100 records. Letters outside ASCII are
  written as their UTF-8 bytes.
\<close>

definition getAllFallbackQuestions :: "FormattedQuestion list" where
  "getAllFallbackQuestions =
    [\<lparr>id' = 1, question = ''Which planet is known as the Red Planet?'',
      options = [''Venus'', ''Mars'', ''Jupiter'', ''Saturn''],
      correctAnswer = 1, category = ''Science'', difficulty = ''easy'', value' = 100\<rparr>,
     \<lparr>id' = 2, question = ''Which country is known as the Land of the Rising Sun?'',
      options = [''China'', ''Korea'', ''Japan'', ''Vietnam''],
      correctAnswer = 2, category = ''Geography'', difficulty = ''easy'', value' = 200\<rparr>,
     \<lparr>id' = 3, question = ''Who painted the Mona Lisa?'',
      options = [''Vincent Van Gogh'', ''Pablo Picasso'', ''Leonardo da Vinci'', ''Michelangelo''],
      correctAnswer = 2, category = ''Art'', difficulty = ''easy'', value' = 300\<rparr>,
     \<lparr>id' = 4, question = ''What is the capital of Australia?'',
      options = [''Sydney'', ''Melbourne'', ''Perth'', ''Canberra''],
      correctAnswer = 3, category = ''Geography'', difficulty = ''easy'', value' = 500\<rparr>,
     \<lparr>id' = 5, question = ''Which element has the chemical symbol 'O'?'',
      options = [''Gold'', ''Oxygen'', ''Osmium'', ''Oganesson''],
      correctAnswer = 1, category = ''Science'', difficulty = ''easy'', value' = 1000\<rparr>,
     \<lparr>id' = 6, question = ''Who wrote 'Romeo and Juliet'?'',
      options = [''Charles Dickens'', ''William Shakespeare'', ''Jane Austen'', ''Mark Twain''],
      correctAnswer = 1, category = ''Literature'', difficulty = ''medium'', value' = 2000\<rparr>,
     \<lparr>id' = 7, question = ''Which famous scientist developed the theory of relativity?'',
      options = [''Isaac Newton'', ''Niels Bohr'', ''Albert Einstein'', ''Marie Curie''],
      correctAnswer = 2, category = ''Science'', difficulty = ''medium'', value' = 4000\<rparr>,
     \<lparr>id' = 8, question = ''What is the largest ocean on Earth?'',
      options = [''Atlantic Ocean'', ''Indian Ocean'', ''Arctic Ocean'', ''Pacific Ocean''],
      correctAnswer = 3, category = ''Geography'', difficulty = ''medium'', value' = 8000\<rparr>,
     \<lparr>id' = 9, question = ''Which of these is NOT a primary color in the RGB color model?'',
      options = [''Red'', ''Green'', ''Blue'', ''Yellow''],
      correctAnswer = 3, category = ''Art'', difficulty = ''medium'', value' = 16000\<rparr>,
     \<lparr>id' = 10, question = ''Which planet has the most moons?'',
      options = [''Jupiter'', ''Saturn'', ''Uranus'', ''Neptune''],
      correctAnswer = 1, category = ''Science'', difficulty = ''hard'', value' = 32000\<rparr>,
     \<lparr>id' = 11, question = ''In what year did the Berlin Wall fall?'',
      options = [''1987'', ''1989'', ''1991'', ''1993''],
      correctAnswer = 1, category = ''History'', difficulty = ''hard'', value' = 64000\<rparr>,
     \<lparr>id' = 12, question = ''Which of these programming languages was developed first?'',
      options = [''Python'', ''Java'', ''C++'', ''FORTRAN''],
      correctAnswer = 3, category = ''Technology'', difficulty = ''hard'', value' = 125000\<rparr>,
     \<lparr>id' = 13, question = ''Which composer was deaf when he completed his Ninth Symphony?'',
      options = [''Wolfgang Amadeus Mozart'', ''Ludwig van Beethoven'', ''Johann Sebastian Bach'', ''Franz Schubert''],
      correctAnswer = 1, category = ''Music'', difficulty = ''hard'', value' = 250000\<rparr>,
     \<lparr>id' = 14, question = ''The Aztec Empire was located in what is now which country?'',
      options = [''Peru'', ''Colombia'', ''Mexico'', ''Brazil''],
      correctAnswer = 2, category = ''History'', difficulty = ''hard'', value' = 500000\<rparr>,
     \<lparr>id' = 15, question = ''What is the world's most expensive spice by weight?'',
      options = [''Vanilla'', ''Cardamom'', ''Saffron'', ''Cinnamon''],
      correctAnswer = 2, category = ''Food'', difficulty = ''hard'', value' = 1000000\<rparr>,
     \<lparr>id' = 16, question = ''Which vitamin is produced by the skin when exposed to sunlight?'',
      options = [''Vitamin A'', ''Vitamin C'', ''Vitamin D'', ''Vitamin K''],
      correctAnswer = 2, category = ''Science'', difficulty = ''easy'', value' = 100\<rparr>,
     \<lparr>id' = 17, question = ''What is the capital of France?'',
      options = [''London'', ''Berlin'', ''Paris'', ''Madrid''],
      correctAnswer = 2, category = ''Geography'', difficulty = ''easy'', value' = 200\<rparr>,
     \<lparr>id' = 18, question = ''Which famous physicist developed the theory of general relativity?'',
      options = [''Isaac Newton'', ''Albert Einstein'', ''Stephen Hawking'', ''Niels Bohr''],
      correctAnswer = 1, category = ''Science'', difficulty = ''easy'', value' = 300\<rparr>,
     \<lparr>id' = 19, question = ''What is the largest mammal in the world?'',
      options = [''Elephant'', ''Blue Whale'', ''Giraffe'', ''Hippopotamus''],
      correctAnswer = 1, category = ''Animals'', difficulty = ''easy'', value' = 500\<rparr>,
     \<lparr>id' = 20, question = ''Who wrote 'Harry Potter'?'',
      options = [''J.R.R. Tolkien'', ''J.K. Rowling'', ''Stephen King'', ''George R.R. Martin''],
      correctAnswer = 1, category = ''Literature'', difficulty = ''easy'', value' = 1000\<rparr>,
     \<lparr>id' = 21, question = ''Which planet is closest to the Sun?'',
      options = [''Venus'', ''Earth'', ''Mars'', ''Mercury''],
      correctAnswer = 3, category = ''Astronomy'', difficulty = ''easy'', value' = 100\<rparr>,
     \<lparr>id' = 22, question = ''What is the capital of Japan?'',
      options = [''Beijing'', ''Seoul'', ''Tokyo'', ''Bangkok''],
      correctAnswer = 2, category = ''Geography'', difficulty = ''easy'', value' = 200\<rparr>,
     \<lparr>id' = 23, question = ''Who painted 'Starry Night'?'',
      options = [''Claude Monet'', ''Pablo Picasso'', ''Vincent van Gogh'', ''Leonardo da Vinci''],
      correctAnswer = 2, category = ''Art'', difficulty = ''easy'', value' = 300\<rparr>,
     \<lparr>id' = 24, question = ''What is the chemical symbol for gold?'',
      options = [''Go'', ''Gd'', ''Au'', ''Ag''],
      correctAnswer = 2, category = ''Science'', difficulty = ''easy'', value' = 500\<rparr>,
     \<lparr>id' = 25, question = ''Which country is known for the Taj Mahal?'',
      options = [''Egypt'', ''India'', ''Turkey'', ''China''],
      correctAnswer = 1, category = ''Geography'', difficulty = ''easy'', value' = 1000\<rparr>,
     \<lparr>id' = 26, question = ''Which of these is NOT a programming language?'',
      options = [''Java'', ''Python'', ''Cobra'', ''Photoshop''],
      correctAnswer = 3, category = ''Technology'', difficulty = ''easy'', value' = 100\<rparr>,
     \<lparr>id' = 27, question = ''What is the capital of Brazil?'',
      options = [''Rio de Janeiro'', ''S'' @ [CHR 0xC3, CHR 0xA3] @ ''o Paulo'', ''Bras'' @ [CHR 0xC3, CHR 0xAD] @ ''lia'', ''Salvador''],
      correctAnswer = 2, category = ''Geography'', difficulty = ''easy'', value' = 200\<rparr>,
     \<lparr>id' = 28, question = ''Which is the largest planet in our solar system?'',
      options = [''Saturn'', ''Jupiter'', ''Neptune'', ''Uranus''],
      correctAnswer = 1, category = ''Astronomy'', difficulty = ''easy'', value' = 300\<rparr>,
     \<lparr>id' = 29, question = ''Who was the first person to walk on the moon?'',
      options = [''Buzz Aldrin'', ''Neil Armstrong'', ''Yuri Gagarin'', ''John Glenn''],
      correctAnswer = 1, category = ''History'', difficulty = ''easy'', value' = 500\<rparr>,
     \<lparr>id' = 30, question = ''What is the longest river in the world?'',
      options = [''Amazon'', ''Nile'', ''Mississippi'', ''Yangtze''],
      correctAnswer = 1, category = ''Geography'', difficulty = ''easy'', value' = 1000\<rparr>,
     \<lparr>id' = 31, question = ''Who wrote 'Pride and Prejudice'?'',
      options = [''Jane Austen'', ''Charlotte Bront'' @ [CHR 0xC3, CHR 0xAB], ''Emily Bront'' @ [CHR 0xC3, CHR 0xAB], ''Virginia Woolf''],
      correctAnswer = 0, category = ''Literature'', difficulty = ''easy'', value' = 100\<rparr>,
     \<lparr>id' = 32, question = ''What is the main language spoken in Brazil?'',
      options = [''Spanish'', ''Portuguese'', ''English'', ''French''],
      correctAnswer = 1, category = ''Geography'', difficulty = ''easy'', value' = 200\<rparr>,
     \<lparr>id' = 33, question = ''Which instrument has 88 keys?'',
      options = [''Guitar'', ''Violin'', ''Piano'', ''Flute''],
      correctAnswer = 2, category = ''Music'', difficulty = ''easy'', value' = 300\<rparr>,
     \<lparr>id' = 34, question = ''What is the chemical symbol for water?'',
      options = [''O2'', ''CO2'', ''H2O'', ''NaCl''],
      correctAnswer = 2, category = ''Science'', difficulty = ''easy'', value' = 500\<rparr>,
     \<lparr>id' = 35, question = ''Which country is known for the Great Barrier Reef?'',
      options = [''Brazil'', ''Mexico'', ''Australia'', ''Indonesia''],
      correctAnswer = 2, category = ''Geography'', difficulty = ''easy'', value' = 1000\<rparr>,
     \<lparr>id' = 36, question = ''Which of these animals is a marsupial?'',
      options = [''Elephant'', ''Kangaroo'', ''Lion'', ''Penguin''],
      correctAnswer = 1, category = ''Animals'', difficulty = ''easy'', value' = 100\<rparr>,
     \<lparr>id' = 37, question = ''What is the capital of Italy?'',
      options = [''Venice'', ''Milan'', ''Rome'', ''Naples''],
      correctAnswer = 2, category = ''Geography'', difficulty = ''easy'', value' = 200\<rparr>,
     \<lparr>id' = 38, question = ''Who painted the ceiling of the Sistine Chapel?'',
      options = [''Leonardo da Vinci'', ''Michelangelo'', ''Raphael'', ''Donatello''],
      correctAnswer = 1, category = ''Art'', difficulty = ''easy'', value' = 300\<rparr>,
     \<lparr>id' = 39, question = ''What is the main ingredient in guacamole?'',
      options = [''Avocado'', ''Tomato'', ''Lime'', ''Onion''],
      correctAnswer = 0, category = ''Food'', difficulty = ''easy'', value' = 500\<rparr>,
     \<lparr>id' = 40, question = ''Which famous ship sank on its maiden voyage in 1912?'',
      options = [''USS Enterprise'', ''Queen Mary'', ''RMS Titanic'', ''HMS Bounty''],
      correctAnswer = 2, category = ''History'', difficulty = ''easy'', value' = 1000\<rparr>,
     \<lparr>id' = 41, question = ''Which sports car company has a prancing horse as its logo?'',
      options = [''Lamborghini'', ''Ferrari'', ''Porsche'', ''Maserati''],
      correctAnswer = 1, category = ''Automotive'', difficulty = ''easy'', value' = 100\<rparr>,
     \<lparr>id' = 42, question = ''What is the largest desert in the world?'',
      options = [''Sahara'', ''Gobi'', ''Arabian'', ''Antarctic''],
      correctAnswer = 3, category = ''Geography'', difficulty = ''easy'', value' = 200\<rparr>,
     \<lparr>id' = 43, question = ''Who is known as the 'King of Pop'?'',
      options = [''Elvis Presley'', ''Michael Jackson'', ''Justin Bieber'', ''Bruno Mars''],
      correctAnswer = 1, category = ''Music'', difficulty = ''easy'', value' = 300\<rparr>,
     \<lparr>id' = 44, question = ''What is the boiling point of water in Celsius?'',
      options = [''90'' @ [CHR 0xC2, CHR 0xB0] @ ''C'', ''100'' @ [CHR 0xC2, CHR 0xB0] @ ''C'', ''110'' @ [CHR 0xC2, CHR 0xB0] @ ''C'', ''212'' @ [CHR 0xC2, CHR 0xB0] @ ''C''],
      correctAnswer = 1, category = ''Science'', difficulty = ''easy'', value' = 500\<rparr>,
     \<lparr>id' = 45, question = ''Which planet is known as the 'Morning Star'?'',
      options = [''Mars'', ''Venus'', ''Jupiter'', ''Mercury''],
      correctAnswer = 1, category = ''Astronomy'', difficulty = ''easy'', value' = 1000\<rparr>,
     \<lparr>id' = 46, question = ''Which country was the first to reach the South Pole?'',
      options = [''United States'', ''Russia'', ''Norway'', ''United Kingdom''],
      correctAnswer = 2, category = ''History'', difficulty = ''medium'', value' = 2000\<rparr>,
     \<lparr>id' = 47, question = ''What is the largest internal organ in the human body?'',
      options = [''Lungs'', ''Liver'', ''Brain'', ''Heart''],
      correctAnswer = 1, category = ''Biology'', difficulty = ''medium'', value' = 4000\<rparr>,
     \<lparr>id' = 48, question = ''Who discovered penicillin?'',
      options = [''Marie Curie'', ''Louis Pasteur'', ''Alexander Fleming'', ''Jonas Salk''],
      correctAnswer = 2, category = ''Science'', difficulty = ''medium'', value' = 8000\<rparr>,
     \<lparr>id' = 49, question = ''Which element has the chemical symbol 'Fe'?'',
      options = [''Iron'', ''Fluorine'', ''Francium'', ''Fermium''],
      correctAnswer = 0, category = ''Chemistry'', difficulty = ''medium'', value' = 16000\<rparr>,
     \<lparr>id' = 50, question = ''In which year did World War I begin?'',
      options = [''1914'', ''1916'', ''1918'', ''1920''],
      correctAnswer = 0, category = ''History'', difficulty = ''medium'', value' = 32000\<rparr>,
     \<lparr>id' = 51, question = ''Which mountain range separates Europe from Asia?'',
      options = [''Alps'', ''Himalayas'', ''Andes'', ''Urals''],
      correctAnswer = 3, category = ''Geography'', difficulty = ''medium'', value' = 2000\<rparr>,
     \<lparr>id' = 52, question = ''Who wrote '1984'?'',
      options = [''Aldous Huxley'', ''George Orwell'', ''Ray Bradbury'', ''H.G. Wells''],
      correctAnswer = 1, category = ''Literature'', difficulty = ''medium'', value' = 4000\<rparr>,
     \<lparr>id' = 53, question = ''What is the currency of Japan?'',
      options = [''Yuan'', ''Won'', ''Ringgit'', ''Yen''],
      correctAnswer = 3, category = ''Geography'', difficulty = ''medium'', value' = 8000\<rparr>,
     \<lparr>id' = 54, question = ''Which element is a noble gas?'',
      options = [''Chlorine'', ''Nitrogen'', ''Argon'', ''Carbon''],
      correctAnswer = 2, category = ''Chemistry'', difficulty = ''medium'', value' = 16000\<rparr>,
     \<lparr>id' = 55, question = ''What is the capital of South Africa?'',
      options = [''Johannesburg'', ''Cape Town'', ''Pretoria'', ''Durban''],
      correctAnswer = 2, category = ''Geography'', difficulty = ''medium'', value' = 32000\<rparr>,
     \<lparr>id' = 56, question = ''Who composed 'The Four Seasons'?'',
      options = [''Johann Sebastian Bach'', ''Wolfgang Amadeus Mozart'', ''Ludwig van Beethoven'', ''Antonio Vivaldi''],
      correctAnswer = 3, category = ''Music'', difficulty = ''medium'', value' = 2000\<rparr>,
     \<lparr>id' = 57, question = ''Which of these countries is not a member of the European Union?'',
      options = [''Sweden'', ''Switzerland'', ''Spain'', ''Portugal''],
      correctAnswer = 1, category = ''Politics'', difficulty = ''medium'', value' = 4000\<rparr>,
     \<lparr>id' = 58, question = ''What is the hardest natural substance on Earth?'',
      options = [''Platinum'', ''Titanium'', ''Diamond'', ''Quartz''],
      correctAnswer = 2, category = ''Science'', difficulty = ''medium'', value' = 8000\<rparr>,
     \<lparr>id' = 59, question = ''Which ancient wonder was located in Alexandria?'',
      options = [''Hanging Gardens'', ''Colossus'', ''Lighthouse'', ''Temple of Artemis''],
      correctAnswer = 2, category = ''History'', difficulty = ''medium'', value' = 16000\<rparr>,
     \<lparr>id' = 60, question = ''What is the name of the longest river in Africa?'',
      options = [''Congo'', ''Niger'', ''Zambezi'', ''Nile''],
      correctAnswer = 3, category = ''Geography'', difficulty = ''medium'', value' = 32000\<rparr>,
     \<lparr>id' = 61, question = ''Which of these is not a type of cloud?'',
      options = [''Cumulus'', ''Stratus'', ''Nimbus'', ''Nebulus''],
      correctAnswer = 3, category = ''Meteorology'', difficulty = ''medium'', value' = 2000\<rparr>,
     \<lparr>id' = 62, question = ''Who directed the movie 'Jaws'?'',
      options = [''George Lucas'', ''Steven Spielberg'', ''Francis Ford Coppola'', ''Martin Scorsese''],
      correctAnswer = 1, category = ''Entertainment'', difficulty = ''medium'', value' = 4000\<rparr>,
     \<lparr>id' = 63, question = ''What is the largest species of shark?'',
      options = [''Great White Shark'', ''Tiger Shark'', ''Hammerhead Shark'', ''Whale Shark''],
      correctAnswer = 3, category = ''Animals'', difficulty = ''medium'', value' = 8000\<rparr>,
     \<lparr>id' = 64, question = ''Which famous emperor built the Colosseum in Rome?'',
      options = [''Augustus'', ''Nero'', ''Vespasian'', ''Constantine''],
      correctAnswer = 2, category = ''History'', difficulty = ''medium'', value' = 16000\<rparr>,
     \<lparr>id' = 65, question = ''What does HTTP stand for?'',
      options = [''HyperText Transfer Protocol'', ''High Tech Transfer Protocol'', ''Hyper Transfer Text Protocol'', ''Host Transfer Technology Protocol''],
      correctAnswer = 0, category = ''Technology'', difficulty = ''medium'', value' = 32000\<rparr>,
     \<lparr>id' = 66, question = ''Which country was not part of the original Axis powers in World War II?'',
      options = [''Germany'', ''Italy'', ''Spain'', ''Japan''],
      correctAnswer = 2, category = ''History'', difficulty = ''medium'', value' = 2000\<rparr>,
     \<lparr>id' = 67, question = ''What is the smallest bone in the human body?'',
      options = [''Stapes'', ''Femur'', ''Radius'', ''Phalanges''],
      correctAnswer = 0, category = ''Biology'', difficulty = ''medium'', value' = 4000\<rparr>,
     \<lparr>id' = 68, question = ''Which planet has the Great Red Spot?'',
      options = [''Mars'', ''Venus'', ''Jupiter'', ''Saturn''],
      correctAnswer = 2, category = ''Astronomy'', difficulty = ''medium'', value' = 8000\<rparr>,
     \<lparr>id' = 69, question = ''Who wrote 'The Canterbury Tales'?'',
      options = [''Geoffrey Chaucer'', ''William Langland'', ''John Gower'', ''Thomas Malory''],
      correctAnswer = 0, category = ''Literature'', difficulty = ''medium'', value' = 16000\<rparr>,
     \<lparr>id' = 70, question = ''Which mountain is the tallest in the world when measured from base to peak?'',
      options = [''Mount Everest'', ''K2'', ''Mauna Kea'', ''Mount Kilimanjaro''],
      correctAnswer = 2, category = ''Geography'', difficulty = ''medium'', value' = 32000\<rparr>,
     \<lparr>id' = 71, question = ''Which of these scientists did NOT contribute to the development of quantum mechanics?'',
      options = [''Niels Bohr'', ''Werner Heisenberg'', ''Stephen Hawking'', ''Max Planck''],
      correctAnswer = 2, category = ''Science'', difficulty = ''hard'', value' = 64000\<rparr>,
     \<lparr>id' = 72, question = ''What is the only state in the United States that grows coffee commercially?'',
      options = [''California'', ''Florida'', ''Hawaii'', ''Louisiana''],
      correctAnswer = 2, category = ''Geography'', difficulty = ''hard'', value' = 125000\<rparr>,
     \<lparr>id' = 73, question = ''Who was the first female winner of a Nobel Prize?'',
      options = [''Marie Curie'', ''Ir'' @ [CHR 0xC3, CHR 0xA8] @ ''ne Joliot-Curie'', ''Dorothy Hodgkin'', ''Rosalind Franklin''],
      correctAnswer = 0, category = ''History'', difficulty = ''hard'', value' = 250000\<rparr>,
     \<lparr>id' = 74, question = ''Which is the only Shakespeare play that mentions America?'',
      options = [''The Tempest'', ''Hamlet'', ''Macbeth'', ''A Midsummer Night's Dream''],
      correctAnswer = 0, category = ''Literature'', difficulty = ''hard'', value' = 500000\<rparr>,
     \<lparr>id' = 75, question = ''What is the rarest blood type in humans?'',
      options = [''AB negative'', ''B negative'', ''O negative'', ''A negative''],
      correctAnswer = 0, category = ''Biology'', difficulty = ''hard'', value' = 1000000\<rparr>,
     \<lparr>id' = 76, question = ''Who was the first person to prove that the Earth revolves around the Sun?'',
      options = [''Galileo Galilei'', ''Nicolaus Copernicus'', ''Johannes Kepler'', ''Isaac Newton''],
      correctAnswer = 1, category = ''Science'', difficulty = ''hard'', value' = 64000\<rparr>,
     \<lparr>id' = 77, question = ''Which of these is NOT one of the Seven Wonders of the Ancient World?'',
      options = [''Great Pyramid of Giza'', ''Hanging Gardens of Babylon'', ''Colosseum of Rome'', ''Temple of Artemis at Ephesus''],
      correctAnswer = 2, category = ''History'', difficulty = ''hard'', value' = 125000\<rparr>,
     \<lparr>id' = 78, question = ''What was the first country to grant women the right to vote?'',
      options = [''United States'', ''United Kingdom'', ''New Zealand'', ''France''],
      correctAnswer = 2, category = ''History'', difficulty = ''hard'', value' = 250000\<rparr>,
     \<lparr>id' = 79, question = ''Which composer was completely deaf when he wrote his Ninth Symphony?'',
      options = [''Wolfgang Amadeus Mozart'', ''Ludwig van Beethoven'', ''Johann Sebastian Bach'', ''Fr'' @ [CHR 0xC3, CHR 0xA9] @ ''d'' @ [CHR 0xC3, CHR 0xA9] @ ''ric Chopin''],
      correctAnswer = 1, category = ''Music'', difficulty = ''hard'', value' = 500000\<rparr>,
     \<lparr>id' = 80, question = ''What is the smallest country in the world by land area?'',
      options = [''Monaco'', ''Vatican City'', ''San Marino'', ''Liechtenstein''],
      correctAnswer = 1, category = ''Geography'', difficulty = ''hard'', value' = 1000000\<rparr>,
     \<lparr>id' = 81, question = ''Who was the only U.S. President to resign from office?'',
      options = [''Richard Nixon'', ''Lyndon B. Johnson'', ''Gerald Ford'', ''Jimmy Carter''],
      correctAnswer = 0, category = ''Politics'', difficulty = ''hard'', value' = 64000\<rparr>,
     \<lparr>id' = 82, question = ''Which element was named after the Greek word for 'green'?'',
      options = [''Oxygen'', ''Hydrogen'', ''Chlorine'', ''Neon''],
      correctAnswer = 2, category = ''Chemistry'', difficulty = ''hard'', value' = 125000\<rparr>,
     \<lparr>id' = 83, question = ''What is the only sea without any coastlines?'',
      options = [''Dead Sea'', ''Red Sea'', ''Sargasso Sea'', ''Caspian Sea''],
      correctAnswer = 2, category = ''Geography'', difficulty = ''hard'', value' = 250000\<rparr>,
     \<lparr>id' = 84, question = ''Which ancient civilization invented the concept of zero?'',
      options = [''Egyptians'', ''Greeks'', ''Mayans'', ''Indians''],
      correctAnswer = 3, category = ''History'', difficulty = ''hard'', value' = 500000\<rparr>,
     \<lparr>id' = 85, question = ''What is the longest English word without a true vowel (a, e, i, o, u)?'',
      options = [''Rhythm'', ''Crypt'', ''Sylph'', ''Lymph''],
      correctAnswer = 0, category = ''Language'', difficulty = ''hard'', value' = 1000000\<rparr>,
     \<lparr>id' = 86, question = ''Which chemical element has the highest melting point?'',
      options = [''Tungsten'', ''Carbon'', ''Titanium'', ''Osmium''],
      correctAnswer = 0, category = ''Chemistry'', difficulty = ''hard'', value' = 64000\<rparr>,
     \<lparr>id' = 87, question = ''Who was the first woman to win a Nobel Prize in two different fields?'',
      options = [''Ir'' @ [CHR 0xC3, CHR 0xA8] @ ''ne Joliot-Curie'', ''Marie Curie'', ''Rita Levi-Montalcini'', ''Dorothy Hodgkin''],
      correctAnswer = 1, category = ''Science'', difficulty = ''hard'', value' = 125000\<rparr>,
     \<lparr>id' = 88, question = ''What is the oldest continuously inhabited city in the world?'',
      options = [''Athens, Greece'', ''Jerusalem, Israel'', ''Damascus, Syria'', ''Varanasi, India''],
      correctAnswer = 2, category = ''Geography'', difficulty = ''hard'', value' = 250000\<rparr>,
     \<lparr>id' = 89, question = ''Who is regarded as the father of modern computer science?'',
      options = [''Charles Babbage'', ''Alan Turing'', ''John von Neumann'', ''Tim Berners-Lee''],
      correctAnswer = 1, category = ''Technology'', difficulty = ''hard'', value' = 500000\<rparr>,
     \<lparr>id' = 90, question = ''What is the closest star to our solar system?'',
      options = [''Betelgeuse'', ''Alpha Centauri'', ''Proxima Centauri'', ''Sirius''],
      correctAnswer = 2, category = ''Astronomy'', difficulty = ''hard'', value' = 1000000\<rparr>,
     \<lparr>id' = 91, question = ''Which of these languages is NOT Indo-European?'',
      options = [''Danish'', ''Persian'', ''Hungarian'', ''Greek''],
      correctAnswer = 2, category = ''Language'', difficulty = ''hard'', value' = 64000\<rparr>,
     \<lparr>id' = 92, question = ''Who proved that DNA has a double helix structure?'',
      options = [''Watson and Crick'', ''Franklin and Wilkins'', ''Mendel and Morgan'', ''Sanger and Kornberg''],
      correctAnswer = 0, category = ''Science'', difficulty = ''hard'', value' = 125000\<rparr>,
     \<lparr>id' = 93, question = ''What was the first successful vaccine developed?'',
      options = [''Polio'', ''Tuberculosis'', ''Rabies'', ''Smallpox''],
      correctAnswer = 3, category = ''Medicine'', difficulty = ''hard'', value' = 250000\<rparr>,
     \<lparr>id' = 94, question = ''Which famous poet wrote 'Do not go gentle into that good night'?'',
      options = [''T.S. Eliot'', ''Dylan Thomas'', ''W.H. Auden'', ''Sylvia Plath''],
      correctAnswer = 1, category = ''Literature'', difficulty = ''hard'', value' = 500000\<rparr>,
     \<lparr>id' = 95, question = ''What is the most abundant gas in Earth's atmosphere?'',
      options = [''Oxygen'', ''Carbon Dioxide'', ''Nitrogen'', ''Argon''],
      correctAnswer = 2, category = ''Science'', difficulty = ''hard'', value' = 1000000\<rparr>,
     \<lparr>id' = 96, question = ''Who discovered the neutron?'',
      options = [''Ernest Rutherford'', ''Marie Curie'', ''James Chadwick'', ''Niels Bohr''],
      correctAnswer = 2, category = ''Physics'', difficulty = ''hard'', value' = 64000\<rparr>,
     \<lparr>id' = 97, question = ''Which movie won the first Academy Award for Best Picture?'',
      options = [''Wings'', ''Gone with the Wind'', ''Casablanca'', ''All Quiet on the Western Front''],
      correctAnswer = 0, category = ''Entertainment'', difficulty = ''hard'', value' = 125000\<rparr>,
     \<lparr>id' = 98, question = ''Which chess piece can only move diagonally?'',
      options = [''Knight'', ''Rook'', ''Bishop'', ''Queen''],
      correctAnswer = 2, category = ''Games'', difficulty = ''hard'', value' = 250000\<rparr>,
     \<lparr>id' = 99, question = ''In which decade was the Internet first made available to the public?'',
      options = [''1960s'', ''1970s'', ''1980s'', ''1990s''],
      correctAnswer = 2, category = ''Technology'', difficulty = ''hard'', value' = 500000\<rparr>,
     \<lparr>id' = 100, question = ''Which ancient civilization built Machu Picchu?'',
      options = [''Maya'', ''Inca'', ''Aztec'', ''Olmec''],
      correctAnswer = 1, category = ''History'', difficulty = ''hard'', value' = 1000000\<rparr>]"

text \<open>
  \<^verbatim>\<open>getRandomFallbackQuestions\<close>. The three shuffles have their own random sources.
  \<^verbatim>\<open>Math.floor(amount * 0.33)\<close> is taken exactly; \<^verbatim>\<open>sort\<close> with the comparator
  \<^verbatim>\<open>a.value - b.value\<close> is a stable sort on \<^verbatim>\<open>value\<close>.
\<close>

definition getRandomFallbackQuestions ::
  "(nat \<Rightarrow> real) \<times> (nat \<Rightarrow> real) \<times> (nat \<Rightarrow> real) \<Rightarrow> int \<Rightarrow> FormattedQuestion list" where
  "getRandomFallbackQuestions rnds amount =
     (let (rnd_easy, rnd_medium, rnd_hard) = rnds;
          allFallbackQuestions = getAllFallbackQuestions;
          easyQuestions = filter (\<lambda>q. difficulty q = ''easy'') allFallbackQuestions;
          mediumQuestions = filter (\<lambda>q. difficulty q = ''medium'') allFallbackQuestions;
          hardQuestions = filter (\<lambda>q. difficulty q = ''hard'') allFallbackQuestions;
          easyCount = \<lfloor>real_of_int amount * (33 / 100)\<rfloor>;
          mediumCount = \<lfloor>real_of_int amount * (33 / 100)\<rfloor>;
          hardCount = amount - easyCount - mediumCount;
          selectedEasy = slice0 (shuffleArray rnd_easy easyQuestions) easyCount;
          selectedMedium = slice0 (shuffleArray rnd_medium mediumQuestions) mediumCount;
          selectedHard = slice0 (shuffleArray rnd_hard hardQuestions) hardCount;
          selectedQuestions = selectedEasy @ selectedMedium @ selectedHard
      in sort_key value' selectedQuestions)"

section \<open>The local store\<close>

text \<open>
  \<^verbatim>\<open>localStorage\<close> maps keys to text. \<^verbatim>\<open>JSON.stringify\<close> and \<^verbatim>\<open>JSON.parse\<close> are library
  functions; the text \<^verbatim>\<open>JSON.stringify(questions)\<close> is kept as the token
  \<open>Json questions\<close>, which \<^verbatim>\<open>JSON.parse\<close> reads back as \<open>questions\<close>. Such a text is
  never empty and starts with a bracket, so it is truthy and \<^verbatim>\<open>parseInt\<close> of it is
  \<^verbatim>\<open>NaN\<close>. Everything else is plain text \<open>Text s\<close>; the program writes plain text only
  as decimal numbers and never under the cache key. \<^verbatim>\<open>JSON.parse\<close> of plain text is taken
  to throw; plain text under the cache key that happens to be JSON (the code would hand
  out its value) is outside this model, and the statements below that start from a cache
  miss start from a store without an entry under the cache key.

  The store can fail: when access is denied every \<^verbatim>\<open>getItem\<close> and \<^verbatim>\<open>setItem\<close> throws,
  and \<^verbatim>\<open>setItem\<close> throws for a key whose value does not fit the quota.
\<close>

datatype stored = Text string | Json "FormattedQuestion list"

fun truthy :: "stored option \<Rightarrow> bool" where
  "truthy None = False"
| "truthy (Some (Text s)) = (s \<noteq> [])"
| "truthy (Some (Json qs)) = True"

fun parseInt_text :: "stored \<Rightarrow> number" where
  "parseInt_text (Text s) = parseInt s"
| "parseInt_text (Json qs) = NaN"

fun JSON_parse :: "stored \<Rightarrow> error + FormattedQuestion list" where
  "JSON_parse (Json qs) = Inr qs"
| "JSON_parse (Text s) = Inl SyntaxError"

definition JSON_stringify :: "FormattedQuestion list \<Rightarrow> stored" where
  "JSON_stringify qs = Json qs"

definition CACHE_KEY :: string where
  "CACHE_KEY = ''quizquest_questions_cache''"

definition CACHE_TIMESTAMP_KEY :: string where
  "CACHE_TIMESTAMP_KEY = ''quizquest_cache_timestamp''"

definition API_COOLDOWN_KEY :: string where
  "API_COOLDOWN_KEY = ''quizquest_api_cooldown''"

definition REQUEST_COUNT_KEY :: string where
  "REQUEST_COUNT_KEY = ''quizquest_request_count''"

definition LAST_REQUEST_TIME_KEY :: string where
  "LAST_REQUEST_TIME_KEY = ''quizquest_last_request''"

definition CACHE_EXPIRY :: int where
  "CACHE_EXPIRY = 24 * 60 * 60 * 1000"

definition API_COOLDOWN :: int where
  "API_COOLDOWN = 30 * 60 * 1000"

record localStorage =
  items :: "string \<Rightarrow> stored option"
  available :: bool
  full :: "string \<Rightarrow> bool"

definition getItem :: "localStorage \<Rightarrow> string \<Rightarrow> error + stored option" where
  "getItem ls k = (if available ls then Inr (items ls k) else Inl SecurityError)"

definition setItem :: "localStorage \<Rightarrow> string \<Rightarrow> stored \<Rightarrow> error + localStorage" where
  "setItem ls k v =
     (if \<not> available ls then Inl SecurityError
      else if full ls k then Inl QuotaExceededError
      else Inr (ls\<lparr>items := (items ls)(k \<mapsto> v)\<rparr>))"

section \<open>Cache and throttle\<close>

text \<open>
  Each operation is given the value of \<^verbatim>\<open>Date.now()\<close> at its call as \<open>now\<close>; the two
  clock reads of one \<^verbatim>\<open>shouldUseApi\<close> call are taken at the same instant. Every \<^verbatim>\<open>try\<close>
  block is followed statement by statement; a throw leaves it for the \<^verbatim>\<open>catch\<close> branch
  with the writes made so far.
\<close>

definition getCachedQuestions :: "int \<Rightarrow> localStorage \<Rightarrow> FormattedQuestion list option" where
  "getCachedQuestions now ls =
     (case getItem ls CACHE_KEY of
        Inl e \<Rightarrow> None
      | Inr cachedData \<Rightarrow>
          (case getItem ls CACHE_TIMESTAMP_KEY of
             Inl e \<Rightarrow> None
           | Inr timestamp \<Rightarrow>
               if \<not> truthy cachedData \<or> \<not> truthy timestamp then None
               else
                 let cacheTime = parseInt_text (the timestamp)
                 in if gt (sub (Num now) cacheTime) (Num CACHE_EXPIRY) then None
                    else (case JSON_parse (the cachedData) of
                            Inl e \<Rightarrow> None
                          | Inr questions \<Rightarrow> Some questions)))"

definition cacheQuestions :: "int \<Rightarrow> FormattedQuestion list \<Rightarrow> localStorage \<Rightarrow> localStorage" where
  "cacheQuestions now questions ls =
     (case setItem ls CACHE_KEY (JSON_stringify questions) of
        Inl e \<Rightarrow> ls
      | Inr ls1 \<Rightarrow>
          (case setItem ls1 CACHE_TIMESTAMP_KEY (Text (toString (Num now))) of
             Inl e \<Rightarrow> ls1
           | Inr ls2 \<Rightarrow> ls2))"

text \<open>\<^verbatim>\<open>localStorage.getItem(REQUEST_COUNT_KEY) || '0'\<close>.\<close>

definition or_zero :: "stored option \<Rightarrow> stored" where
  "or_zero v = (if truthy v then the v else Text ''0'')"

definition shouldUseApi :: "int \<Rightarrow> localStorage \<Rightarrow> bool \<times> localStorage" where
  "shouldUseApi now ls =
     (case getItem ls API_COOLDOWN_KEY of
        Inl e \<Rightarrow> (True, ls)
      | Inr cooldownUntil \<Rightarrow>
          if truthy cooldownUntil \<and> gt (parseInt_text (the cooldownUntil)) (Num now)
          then (False, ls)
          else
            (case getItem ls LAST_REQUEST_TIME_KEY of
               Inl e \<Rightarrow> (True, ls)
             | Inr lastRequestTime \<Rightarrow>
                 (case getItem ls REQUEST_COUNT_KEY of
                    Inl e \<Rightarrow> (True, ls)
                  | Inr stored \<Rightarrow>
                      let requestCount0 = parseInt_text (or_zero stored);
                          requestCount =
                            (if truthy lastRequestTime
                                \<and> gt (sub (Num now) (parseInt_text (the lastRequestTime)))
                                     (Num (5 * 60 * 1000))
                             then Num 0 else requestCount0)
                      in if ge requestCount (Num 5) then (False, ls)
                         else
                           (case setItem ls REQUEST_COUNT_KEY
                                   (Text (toString (add requestCount (Num 1)))) of
                              Inl e \<Rightarrow> (True, ls)
                            | Inr ls1 \<Rightarrow>
                                (case setItem ls1 LAST_REQUEST_TIME_KEY
                                        (Text (toString (Num now))) of
                                   Inl e \<Rightarrow> (True, ls1)
                                 | Inr ls2 \<Rightarrow> (True, ls2))))))"

text \<open>\<^verbatim>\<open>handleRateLimiting\<close> has no \<^verbatim>\<open>try\<close>: a throw of \<^verbatim>\<open>setItem\<close> leaves it.\<close>

definition handleRateLimiting :: "int \<Rightarrow> localStorage \<Rightarrow> error + localStorage" where
  "handleRateLimiting now ls =
     setItem ls API_COOLDOWN_KEY (Text (toString (Num (now + API_COOLDOWN))))"

text \<open>A store that works and holds nothing, as a first visit finds it.\<close>

definition fresh_store :: localStorage where
  "fresh_store = \<lparr>items = (\<lambda>k. None), available = True, full = (\<lambda>k. False)\<rparr>"

text \<open>A sequence of \<^verbatim>\<open>shouldUseApi\<close> calls at the given clock values, with their answers.\<close>

fun shouldUseApi_calls :: "int list \<Rightarrow> localStorage \<Rightarrow> bool list \<times> localStorage" where
  "shouldUseApi_calls [] ls = ([], ls)"
| "shouldUseApi_calls (t # ts) ls =
     (let (b, ls1) = shouldUseApi t ls;
          (bs, ls2) = shouldUseApi_calls ts ls1
      in (b # bs, ls2))"

section \<open>Acquiring a question set\<close>

text \<open>
  What \<^verbatim>\<open>axios.get\<close> delivers: \<^verbatim>\<open>response.status\<close> and \<^verbatim>\<open>response.data\<close> (\<open>None\<close> when
  the body is \<^verbatim>\<open>null\<close> or \<^verbatim>\<open>undefined\<close>), the body with its \<^verbatim>\<open>response_code\<close> and its
  \<^verbatim>\<open>results\<close> (\<open>None\<close> when missing).
\<close>

record api_data =
  response_code :: int
  results :: "ApiQuestion list option"

record response =
  status :: int
  data :: "api_data option"

text \<open>
  Everything outside the program that one run of \<^verbatim>\<open>fetchQuestions\<close> meets:
  \<^item> \<open>t_start\<close>, the clock while the cache and the throttle are consulted, and
    \<open>t_settled\<close>, the clock after the random delay of 100 to 700 ms and the three
    requests, when the cooldown or the cache is written;
  \<^item> \<open>network\<close>, how \<^verbatim>\<open>Promise.all\<close> of the three requests settles: rejected with an
    error (\<open>Inl\<close>), or fulfilled with the easy, medium and hard response;
  \<^item> \<open>decode\<close>, the browser's \<^verbatim>\<open>decodeHTMLEntities\<close>;
  \<^item> \<open>rnd_options\<close>, the random source of the option shuffle of each record, and
    \<open>rnd_fallback\<close>, those of the three shuffles of the fallback sample.
\<close>

record world =
  t_start :: int
  t_settled :: int
  network :: "error + (response \<times> response \<times> response)"
  decode :: "string \<Rightarrow> string"
  rnd_options :: "nat \<Rightarrow> nat \<Rightarrow> real"
  rnd_fallback :: "(nat \<Rightarrow> real) \<times> (nat \<Rightarrow> real) \<times> (nat \<Rightarrow> real)"

text \<open>\<^verbatim>\<open>results || []\<close>.\<close>

definition or_empty :: "'a list option \<Rightarrow> 'a list" where
  "or_empty r = (case r of None \<Rightarrow> [] | Some xs \<Rightarrow> xs)"

text \<open>
  The body of the \<^verbatim>\<open>try\<close> block of \<^verbatim>\<open>fetchQuestions\<close>: what it returns or throws, and the
  store it leaves. The three \<^verbatim>\<open>response_code\<close> tests are evaluated left to right and stop
  at the first that holds.
\<close>

definition fetch_attempt ::
  "world \<Rightarrow> int \<Rightarrow> localStorage \<Rightarrow> (error + FormattedQuestion list) \<times> localStorage" where
  "fetch_attempt w amount ls =
     (case network w of
        Inl err \<Rightarrow> (Inl err, ls)
      | Inr (easyResponse, mediumResponse, hardResponse) \<Rightarrow>
          if status easyResponse = 429 \<or> status mediumResponse = 429
               \<or> status hardResponse = 429
          then (case handleRateLimiting (t_settled w) ls of
                  Inl err \<Rightarrow> (Inl err, ls)
                | Inr ls' \<Rightarrow> (Inr (getRandomFallbackQuestions (rnd_fallback w) amount), ls'))
          else
            (case data easyResponse of
               None \<Rightarrow> (Inl TypeError, ls)
             | Some easyData \<Rightarrow>
            if response_code easyData \<noteq> 0
            then (Inr (getRandomFallbackQuestions (rnd_fallback w) amount), ls)
            else
            (case data mediumResponse of
               None \<Rightarrow> (Inl TypeError, ls)
             | Some mediumData \<Rightarrow>
            if response_code mediumData \<noteq> 0
            then (Inr (getRandomFallbackQuestions (rnd_fallback w) amount), ls)
            else
            (case data hardResponse of
               None \<Rightarrow> (Inl TypeError, ls)
             | Some hardData \<Rightarrow>
            if response_code hardData \<noteq> 0
            then (Inr (getRandomFallbackQuestions (rnd_fallback w) amount), ls)
            else
              let easyQuestions = or_empty (results easyData);
                  mediumQuestions = or_empty (results mediumData);
                  hardQuestions = or_empty (results hardData)
              in if length easyQuestions \<noteq> 5 \<or> length mediumQuestions \<noteq> 5
                      \<or> length hardQuestions \<noteq> 5
                 then (Inr (getRandomFallbackQuestions (rnd_fallback w) amount), ls)
                 else
                   let allQuestions = easyQuestions @ mediumQuestions @ hardQuestions
                   in (case formatQuestions (decode w) (rnd_options w) 0 allQuestions of
                         Inl err \<Rightarrow> (Inl err, ls)
                       | Inr formattedQuestions \<Rightarrow>
                           (let sortedQuestions = sort_key value' formattedQuestions
                            in (Inr sortedQuestions,
                                cacheQuestions (t_settled w) sortedQuestions ls)))))))"

text \<open>\<^verbatim>\<open>error.response && error.response.status === 429\<close>.\<close>

fun is_rate_limit :: "error \<Rightarrow> bool" where
  "is_rate_limit (AxiosError (Some st)) = (st = 429)"
| "is_rate_limit _ = False"

text \<open>
  The result of one run: what the promise settles with (\<open>Inl\<close>: it rejects with that
  error), the store afterwards, and how many \<^verbatim>\<open>axios.get\<close> calls were issued.
\<close>

record outcome =
  returned :: "error + FormattedQuestion list"
  storage :: localStorage
  requests :: nat

definition fetchQuestions :: "world \<Rightarrow> int \<Rightarrow> localStorage \<Rightarrow> outcome" where
  "fetchQuestions w amount ls =
     (case getCachedQuestions (t_start w) ls of
        Some cachedQuestions \<Rightarrow>
          \<lparr>returned = Inr cachedQuestions, storage = ls, requests = 0\<rparr>
      | None \<Rightarrow>
          (case shouldUseApi (t_start w) ls of
             (False, ls1) \<Rightarrow>
               \<lparr>returned = Inr (getRandomFallbackQuestions (rnd_fallback w) amount),
                storage = ls1, requests = 0\<rparr>
           | (True, ls1) \<Rightarrow>
               (case fetch_attempt w amount ls1 of
                  (Inr questions, ls2) \<Rightarrow>
                    \<lparr>returned = Inr questions, storage = ls2, requests = 3\<rparr>
                | (Inl err, ls2) \<Rightarrow>
                    if is_rate_limit err
                    then (case handleRateLimiting (t_settled w) ls2 of
                            Inl err' \<Rightarrow>
                              \<lparr>returned = Inl err', storage = ls2, requests = 3\<rparr>
                          | Inr ls3 \<Rightarrow>
                              \<lparr>returned =
                                 Inr (getRandomFallbackQuestions (rnd_fallback w) amount),
                               storage = ls3, requests = 3\<rparr>)
                    else \<lparr>returned =
                            Inr (getRandomFallbackQuestions (rnd_fallback w) amount),
                          storage = ls2, requests = 3\<rparr>)))"

section \<open>The game session\<close>

text \<open>\<^verbatim>\<open>moneyLadder\<close> and \<^verbatim>\<open>milestones\<close> of \<^verbatim>\<open>data/questions\<close>.\<close>

definition moneyLadder :: "int list" where
  "moneyLadder =
     [100, 200, 300, 500, 1000, 2000, 4000, 8000, 16000, 32000, 64000, 125000, 250000,
      500000, 1000000]"

definition milestones :: "nat list" where
  "milestones = [5, 10, 15]"

text \<open>Reading an array at an index: \<open>None\<close> is \<^verbatim>\<open>undefined\<close>.\<close>

definition index_at :: "'a list \<Rightarrow> nat \<Rightarrow> 'a option" where
  "index_at xs i = (if i < length xs then Some (xs ! i) else None)"

datatype gameState = Start | Loading | Playing | Result

record lifelines =
  fifty :: bool
  audience :: bool
  phone :: bool

text \<open>
  The part of the state of \<^verbatim>\<open>QuizGame\<close> that the payout and the 50:50 lifeline depend
  on. The audience and phone help, the sound switch and the visual effects are left out.
\<close>

record game =
  gameState :: gameState
  questions :: "FormattedQuestion list"
  currentQuestionIndex :: nat
  selectedAnswer :: "int option"
  isAnswerConfirmed :: bool
  earnedMoney :: "int option"
  lifeline :: lifelines
  eliminatedOptions :: "int list"

text \<open>
  The loop of the game-over branch of \<^verbatim>\<open>confirmAnswer\<close>, over the milestones from the last
  to the first: the first milestone \<open>m\<close> with \<^verbatim>\<open>currentQuestionIndex >= m - 1\<close> sets
  \<^verbatim>\<open>finalMoney = moneyLadder[m - 1]\<close> and breaks; \<^verbatim>\<open>finalMoney\<close> starts at 0.
\<close>

fun finalMoney_loop :: "nat list \<Rightarrow> nat \<Rightarrow> int option" where
  "finalMoney_loop [] currentIndex = Some 0"
| "finalMoney_loop (m # ms) currentIndex =
     (if int currentIndex \<ge> int m - 1 then index_at moneyLadder (m - 1)
      else finalMoney_loop ms currentIndex)"

definition finalMoney :: "nat \<Rightarrow> int option" where
  "finalMoney currentIndex = finalMoney_loop (rev milestones) currentIndex"

text \<open>
  \<^verbatim>\<open>confirmAnswer\<close>, with the state updates of its delayed callback applied (the callback
  uses the values captured at the call). Sounds and visual effects are left out.
  \<^verbatim>\<open>currentQuestion\<close> is \<^verbatim>\<open>undefined\<close> when the index is past the questions, and reading
  its \<^verbatim>\<open>correctAnswer\<close> throws.
\<close>

definition confirmAnswer :: "game \<Rightarrow> error + game" where
  "confirmAnswer g =
     (case selectedAnswer g of
        None \<Rightarrow> Inr g
      | Some selected \<Rightarrow>
          (case index_at (questions g) (currentQuestionIndex g) of
             None \<Rightarrow> Inl TypeError
           | Some currentQuestion \<Rightarrow>
               let isCorrect = (selected = correctAnswer currentQuestion);
                   g1 = g\<lparr>isAnswerConfirmed := True\<rparr>
               in if isCorrect
                  then
                    let g2 = g1\<lparr>earnedMoney := index_at moneyLadder (currentQuestionIndex g)\<rparr>
                    in if int (currentQuestionIndex g) = int (length (questions g)) - 1
                       then Inr (g2\<lparr>gameState := Result\<rparr>)
                       else Inr (g2\<lparr>currentQuestionIndex := currentQuestionIndex g + 1,
                                    selectedAnswer := None,
                                    isAnswerConfirmed := False,
                                    eliminatedOptions := []\<rparr>)
                  else Inr (g1\<lparr>earnedMoney := finalMoney (currentQuestionIndex g),
                               gameState := Result\<rparr>)))"

text \<open>
  What the spec promises on a wrong answer: the ladder value of the highest milestone among
  the questions already answered correctly, 0 when there is none. A player who is at index
  \<open>k\<close> has answered \<open>k\<close> questions correctly.
\<close>

definition guaranteed_payout :: "nat \<Rightarrow> int" where
  "guaranteed_payout completed =
     (case filter (\<lambda>m. m \<le> completed) (rev milestones) of
        [] \<Rightarrow> 0
      | m # _ \<Rightarrow> moneyLadder ! (m - 1))"

text \<open>
  \<^verbatim>\<open>useFiftyFifty\<close>. \<^verbatim>\<open>wrongOptions.sort(() => Math.random() - 0.5)\<close> is a sort with a
  comparator that answers at random; the order it leaves is the engine's choice and is
  the parameter \<open>sortRandom\<close>.
\<close>

definition useFiftyFifty :: "(int list \<Rightarrow> int list) \<Rightarrow> game \<Rightarrow> error + game" where
  "useFiftyFifty sortRandom g =
     (if \<not> fifty (lifeline g) \<or> isAnswerConfirmed g then Inr g
      else
        (case index_at (questions g) (currentQuestionIndex g) of
           None \<Rightarrow> Inl TypeError
         | Some currentQuestion \<Rightarrow>
             let correct = correctAnswer currentQuestion;
                 wrongOptions = filter (\<lambda>idx. idx \<noteq> correct) [0, 1, 2, 3];
                 shuffledWrongOptions = sortRandom wrongOptions;
                 toEliminate = take 2 shuffledWrongOptions
             in Inr (g\<lparr>eliminatedOptions := toEliminate,
                       lifeline := (lifeline g)\<lparr>fifty := False\<rparr>\<rparr>)))"

section \<open>Concrete inputs\<close>

text \<open>Small inputs on which the theorems below are instantiated.\<close>

definition rnd_zero :: "nat \<Rightarrow> real" where
  "rnd_zero i = 0"

definition rnd_half :: "nat \<Rightarrow> real" where
  "rnd_half i = 1 / 2"

definition raw_example :: ApiQuestion where
  "raw_example =
     \<lparr>api_category = ''Science &amp; Nature'', api_type = ''multiple'',
      api_difficulty = ''easy'', api_question = ''What is the chemical formula of water?'',
      correct_answer = ''H2O'', incorrect_answers = [''CO2'', ''NaCl'', ''O2'']\<rparr>"

text \<open>The same record with a difficulty that is no key of \<^verbatim>\<open>difficultyValueMap\<close>.\<close>

definition raw_unknown_difficulty :: ApiQuestion where
  "raw_unknown_difficulty = raw_example\<lparr>api_difficulty := ''expert''\<rparr>"

definition formatted_example :: FormattedQuestion where
  "formatted_example =
     \<lparr>id' = 1, question = ''What is the chemical formula of water?'',
      options = [''CO2'', ''H2O'', ''NaCl'', ''O2''], correctAnswer = 1,
      category = ''Science'', difficulty = ''easy'', value' = 100\<rparr>"

text \<open>A store whose quota is used up: reads work, every write throws.\<close>

definition exhausted_store :: localStorage where
  "exhausted_store = \<lparr>items = (\<lambda>k. None), available = True, full = (\<lambda>k. True)\<rparr>"

text \<open>A working store that has counted five requests, the last at clock value 0.\<close>

definition saturated_store :: localStorage where
  "saturated_store =
     \<lparr>items = [REQUEST_COUNT_KEY \<mapsto> Text ''5'', LAST_REQUEST_TIME_KEY \<mapsto> Text ''0''],
      available = True, full = (\<lambda>k. False)\<rparr>"

text \<open>A working store without a cooldown whose request count is not a number.\<close>

definition corrupt_count_store :: localStorage where
  "corrupt_count_store =
     \<lparr>items = [REQUEST_COUNT_KEY \<mapsto> Text ''abc''], available = True, full = (\<lambda>k. False)\<rparr>"

text \<open>A working store without a cooldown whose request count is the number -3.\<close>

definition negative_count_store :: localStorage where
  "negative_count_store =
     \<lparr>items = [REQUEST_COUNT_KEY \<mapsto> Text (toString (Num (- 3)))],
      available = True, full = (\<lambda>k. False)\<rparr>"

text \<open>A response with status 200, \<^verbatim>\<open>response_code\<close> 0 and five copies of a record.\<close>

definition batch_of :: "ApiQuestion \<Rightarrow> response" where
  "batch_of q = \<lparr>status = 200, data = Some \<lparr>response_code = 0, results = Some (replicate 5 q)\<rparr>\<rparr>"

text \<open>A run that starts at clock value 3600000 and in which the three requests succeed.\<close>

definition live_world :: world where
  "live_world =
     \<lparr>t_start = 3600000, t_settled = 3600500,
      network = Inr (batch_of raw_example,
                     batch_of (raw_example\<lparr>api_difficulty := ''medium''\<rparr>),
                     batch_of (raw_example\<lparr>api_difficulty := ''hard''\<rparr>)),
      decode = id,
      rnd_options = (\<lambda>index. rnd_half),
      rnd_fallback = (rnd_half, rnd_half, rnd_half)\<rparr>"

text \<open>A run in which the server answers 429 and axios rejects the request.\<close>

definition rate_limited_world :: world where
  "rate_limited_world = live_world\<lparr>network := Inl (AxiosError (Some 429))\<rparr>"

text \<open>
  A store that holds a question set cached at clock value 0 and has counted two requests.
\<close>

definition cached_store :: localStorage where
  "cached_store =
     \<lparr>items = [CACHE_KEY \<mapsto> Json [formatted_example],
               CACHE_TIMESTAMP_KEY \<mapsto> Text (toString (Num 0)),
               REQUEST_COUNT_KEY \<mapsto> Text ''2'',
               LAST_REQUEST_TIME_KEY \<mapsto> Text ''0''],
      available = True, full = (\<lambda>k. False)\<rparr>"

text \<open>
  A game on the first fifteen questions of the pool, the player at the question with the
  given index, having picked an option that is not the correct one.
\<close>

definition wrong_pick_at :: "nat \<Rightarrow> game" where
  "wrong_pick_at k =
     \<lparr>gameState = Playing,
      questions = take 15 getAllFallbackQuestions,
      currentQuestionIndex = k,
      selectedAnswer = Some (correctAnswer (getAllFallbackQuestions ! k) + 1),
      isAnswerConfirmed = False,
      earnedMoney = (if k = 0 then Some 0 else index_at moneyLadder (k - 1)),
      lifeline = \<lparr>fifty = True, audience = True, phone = True\<rparr>,
      eliminatedOptions = []\<rparr>"

section \<open>Round trip of numbers through their text\<close>

lemma of_char_digit_char: "d < 10 \<Longrightarrow> (of_char (digit_char d) :: nat) = 48 + d"
  by (simp add: digit_char_def)

lemma is_digit_digit_char: "d < 10 \<Longrightarrow> is_digit (digit_char d)"
  by (simp add: is_digit_def of_char_digit_char)

lemma nat_digits_all_digits: "\<forall>c \<in> set (nat_digits n). is_digit c"
proof (induction n rule: nat_digits.induct)
  case (1 n)
  show ?case
  proof (cases "n < 10")
    case True
    then show ?thesis by (simp add: nat_digits.simps [of n] is_digit_digit_char)
  next
    case False
    with "1" show ?thesis by (simp add: nat_digits.simps [of n] is_digit_digit_char)
  qed
qed

lemma nat_digits_nonempty: "nat_digits n \<noteq> []"
  by (simp add: nat_digits.simps [of n])

lemma digits_value_snoc:
  "digits_value (ds @ [c]) = 10 * digits_value ds + (of_char c - 48)"
  by (simp add: digits_value_def)

lemma digits_value_nat_digits: "digits_value (nat_digits n) = n"
proof (induction n rule: nat_digits.induct)
  case (1 n)
  show ?case
  proof (cases "n < 10")
    case True
    then show ?thesis
      by (simp add: nat_digits.simps [of n] digits_value_def of_char_digit_char)
  next
    case False
    with "1" have "digits_value (nat_digits (n div 10)) = n div 10" by simp
    with False show ?thesis
      by (simp add: nat_digits.simps [of n] digits_value_snoc of_char_digit_char)
  qed
qed

lemma is_digit_not_space: "is_digit c \<Longrightarrow> \<not> is_space c"
  by (auto simp: is_digit_def is_space_def)

lemma is_digit_not_sign: "is_digit c \<Longrightarrow> c \<noteq> CHR ''-'' \<and> c \<noteq> CHR ''+''"
  by (auto simp: is_digit_def)

lemma parseInt_digits:
  assumes "ds \<noteq> []" and "\<forall>c \<in> set ds. is_digit c"
  shows "parseInt ds = Num (int (digits_value ds))"
    and "parseInt (CHR ''-'' # ds) = Num (- int (digits_value ds))"
proof -
  obtain c r where ds: "ds = c # r" using assms(1) by (cases ds) auto
  have c: "is_digit c" using assms(2) ds by simp
  have tw: "takeWhile is_digit ds = ds" using assms(2) by simp
  have dw: "dropWhile is_space ds = ds" using c ds is_digit_not_space by simp
  have neg: "(case ds of [] \<Rightarrow> False | c # _ \<Rightarrow> c = CHR ''-'') = False"
    using ds is_digit_not_sign [OF c] by simp
  have u: "(case ds of [] \<Rightarrow> [] | c # r \<Rightarrow> if c = CHR ''-'' \<or> c = CHR ''+'' then r else ds) = ds"
    using ds is_digit_not_sign [OF c] by simp
  show "parseInt ds = Num (int (digits_value ds))"
    unfolding parseInt_def Let_def dw neg u tw using assms(1) by simp
  have minus: "dropWhile is_space (CHR ''-'' # ds) = CHR ''-'' # ds"
    by (simp add: is_space_def)
  show "parseInt (CHR ''-'' # ds) = Num (- int (digits_value ds))"
    unfolding parseInt_def Let_def minus using assms(1) by (simp add: tw)
qed

lemma parseInt_toString: "parseInt (toString (Num i)) = Num i"
proof (cases "i < 0")
  case True
  then show ?thesis
    using parseInt_digits(2) [OF nat_digits_nonempty nat_digits_all_digits, of "nat (- i)"]
    by (simp add: digits_value_nat_digits)
next
  case False
  then show ?thesis
    using parseInt_digits(1) [OF nat_digits_nonempty nat_digits_all_digits, of "nat i"]
    by (simp add: digits_value_nat_digits)
qed

lemma toString_nonempty: "toString n \<noteq> []"
  by (cases n) (simp_all add: nat_digits_nonempty)

lemma parseInt_NaN_text: "parseInt ''NaN'' = NaN"
  by (simp add: parseInt_def is_space_def is_digit_def Let_def)

section \<open>The store: keys and small evaluations\<close>

lemma keys_distinct:
  "distinct [CACHE_KEY, CACHE_TIMESTAMP_KEY, API_COOLDOWN_KEY, REQUEST_COUNT_KEY,
             LAST_REQUEST_TIME_KEY]"
  by (simp add: CACHE_KEY_def CACHE_TIMESTAMP_KEY_def API_COOLDOWN_KEY_def
      REQUEST_COUNT_KEY_def LAST_REQUEST_TIME_KEY_def)

lemmas key_neq = keys_distinct [simplified]

lemma shouldUseApi_working:
  assumes "available ls" and "\<not> full ls REQUEST_COUNT_KEY" and "\<not> full ls LAST_REQUEST_TIME_KEY"
  shows "shouldUseApi now ls =
     (if truthy (items ls API_COOLDOWN_KEY)
           \<and> gt (parseInt_text (the (items ls API_COOLDOWN_KEY))) (Num now)
      then (False, ls)
      else
        let requestCount =
              (if truthy (items ls LAST_REQUEST_TIME_KEY)
                  \<and> gt (sub (Num now) (parseInt_text (the (items ls LAST_REQUEST_TIME_KEY))))
                       (Num (5 * 60 * 1000))
               then Num 0 else parseInt_text (or_zero (items ls REQUEST_COUNT_KEY)))
        in if ge requestCount (Num 5) then (False, ls)
           else (True, ls\<lparr>items := (items ls)
                   (REQUEST_COUNT_KEY \<mapsto> Text (toString (add requestCount (Num 1))),
                    LAST_REQUEST_TIME_KEY \<mapsto> Text (toString (Num now)))\<rparr>))"
  using assms
  by (simp add: shouldUseApi_def getItem_def setItem_def Let_def del: toString.simps)

lemma allowed_first:
  assumes works: "available ls" "\<not> full ls REQUEST_COUNT_KEY" "\<not> full ls LAST_REQUEST_TIME_KEY"
    and cnt: "parseInt_text (or_zero (items ls REQUEST_COUNT_KEY)) = Num c" "0 \<le> c"
    and ok: "shouldUseApi t ls = (True, ls')"
  shows "available ls' \<and> \<not> full ls' REQUEST_COUNT_KEY \<and> \<not> full ls' LAST_REQUEST_TIME_KEY
       \<and> (\<exists>c'. 1 \<le> c' \<and> items ls' REQUEST_COUNT_KEY = Some (Text (toString (Num c'))))
       \<and> items ls' LAST_REQUEST_TIME_KEY = Some (Text (toString (Num t)))"
proof -
  let ?reset = "truthy (items ls LAST_REQUEST_TIME_KEY)
                  \<and> gt (sub (Num t) (parseInt_text (the (items ls LAST_REQUEST_TIME_KEY))))
                       (Num (5 * 60 * 1000))"
  let ?rc = "if ?reset then Num 0 else Num c"
  from ok works cnt have
    ls': "ls' = ls\<lparr>items := (items ls)
                   (REQUEST_COUNT_KEY \<mapsto> Text (toString (add ?rc (Num 1))),
                    LAST_REQUEST_TIME_KEY \<mapsto> Text (toString (Num t)))\<rparr>"
    by (auto simp add: shouldUseApi_working [OF works] Let_def simp del: toString.simps split: if_splits)
  have "\<exists>c'. 1 \<le> c' \<and> add ?rc (Num 1) = Num c'" using cnt(2) by simp
  then obtain c' where c': "1 \<le> c'" "add ?rc (Num 1) = Num c'" by blast
  show ?thesis
    using works key_neq c' unfolding ls' by (auto simp del: toString.simps)
qed

lemma allowed_in_window:
  assumes works: "available ls" "\<not> full ls REQUEST_COUNT_KEY" "\<not> full ls LAST_REQUEST_TIME_KEY"
    and cnt: "items ls REQUEST_COUNT_KEY = Some (Text (toString (Num c)))"
    and last: "items ls LAST_REQUEST_TIME_KEY = Some (Text (toString (Num l)))"
    and gap: "t - l \<le> 5 * 60 * 1000"
    and ok: "shouldUseApi t ls = (True, ls')"
  shows "available ls' \<and> \<not> full ls' REQUEST_COUNT_KEY \<and> \<not> full ls' LAST_REQUEST_TIME_KEY
       \<and> items ls' REQUEST_COUNT_KEY = Some (Text (toString (Num (c + 1))))
       \<and> items ls' LAST_REQUEST_TIME_KEY = Some (Text (toString (Num t)))"
proof -
  have rc: "parseInt_text (or_zero (items ls REQUEST_COUNT_KEY)) = Num c"
    by (simp add: cnt or_zero_def toString_nonempty parseInt_toString del: toString.simps)
  have noreset: "\<not> gt (sub (Num t) (parseInt_text (the (items ls LAST_REQUEST_TIME_KEY))))
                       (Num (5 * 60 * 1000))"
    using gap by (simp add: last parseInt_toString del: toString.simps)
  from ok have
    ls': "ls' = ls\<lparr>items := (items ls)
                   (REQUEST_COUNT_KEY \<mapsto> Text (toString (Num (c + 1))),
                    LAST_REQUEST_TIME_KEY \<mapsto> Text (toString (Num t)))\<rparr>"
    using noreset rc
    by (auto simp add: shouldUseApi_working [OF works] Let_def simp del: toString.simps split: if_splits)
  show ?thesis
    using works key_neq unfolding ls' by (simp del: toString.simps)
qed

lemma blocked_when_full:
  assumes works: "available ls" "\<not> full ls REQUEST_COUNT_KEY" "\<not> full ls LAST_REQUEST_TIME_KEY"
    and cnt: "items ls REQUEST_COUNT_KEY = Some (Text (toString (Num c)))" "5 \<le> c"
    and last: "items ls LAST_REQUEST_TIME_KEY = Some (Text (toString (Num l)))"
    and gap: "t - l \<le> 5 * 60 * 1000"
  shows "shouldUseApi t ls = (False, ls)"
proof -
  have rc: "parseInt_text (or_zero (items ls REQUEST_COUNT_KEY)) = Num c"
    by (simp add: cnt or_zero_def toString_nonempty parseInt_toString del: toString.simps)
  have noreset: "\<not> gt (sub (Num t) (parseInt_text (the (items ls LAST_REQUEST_TIME_KEY))))
                       (Num (5 * 60 * 1000))"
    using gap by (simp add: last parseInt_toString del: toString.simps)
  show ?thesis
    using noreset rc cnt(2)
    by (simp add: shouldUseApi_working [OF works] Let_def del: toString.simps)
qed

lemma calls_unroll:
  "shouldUseApi_calls (t # ts) ls = (b # bs, ls') \<longleftrightarrow>
     (\<exists>ls1. shouldUseApi t ls = (b, ls1) \<and> shouldUseApi_calls ts ls1 = (bs, ls'))"
  by (auto simp: Let_def split: prod.splits)

lemma parseInt_zero: "parseInt ''0'' = Num 0"
  by (simp add: parseInt_def is_space_def is_digit_def digits_value_def Let_def)

lemma parseInt_abc: "parseInt ''abc'' = NaN"
  by (simp add: parseInt_def is_space_def is_digit_def Let_def)

lemma parseInt_five: "parseInt ''5'' = Num 5"
  by (simp add: parseInt_def is_space_def is_digit_def digits_value_def Let_def)

lemma cacheQuestions_working:
  assumes "available ls" and "\<not> full ls CACHE_KEY" and "\<not> full ls CACHE_TIMESTAMP_KEY"
  shows "cacheQuestions now S ls =
           ls\<lparr>items := (items ls)(CACHE_KEY \<mapsto> Json S,
                                     CACHE_TIMESTAMP_KEY \<mapsto> Text (toString (Num now)))\<rparr>"
  using assms
  by (simp add: cacheQuestions_def setItem_def JSON_stringify_def del: toString.simps)

section \<open>Cache round trip\<close>

text \<open>
  Claim C7. On a store that takes the two cache writes, \<^verbatim>\<open>getCachedQuestions\<close> after
  \<^verbatim>\<open>cacheQuestions(S)\<close> at clock value \<open>now\<close> returns \<open>S\<close> when it is asked at a clock value
  \<open>now'\<close> with \<open>now' - now \<le> 24h\<close>, in particular immediately (\<open>now' = now\<close>), and
  \<^verbatim>\<open>null\<close> once \<open>now' - now\<close> exceeds 24 hours. This holds for every question set \<open>S\<close>
  and whatever the store held before.
\<close>

theorem cache_round_trip:
  assumes "available ls" and "\<not> full ls CACHE_KEY" and "\<not> full ls CACHE_TIMESTAMP_KEY"
  shows "getCachedQuestions now' (cacheQuestions now S ls)
           = (if now' - now > 24 * 60 * 60 * 1000 then None else Some S)"
  using assms key_neq
  by (simp add: getCachedQuestions_def cacheQuestions_def getItem_def setItem_def
      JSON_stringify_def toString_nonempty parseInt_toString CACHE_EXPIRY_def
      del: toString.simps)

theorem cache_round_trip_witness:
  "getCachedQuestions 1000 (cacheQuestions 1000 [formatted_example] fresh_store)
     = Some [formatted_example]
   \<and> getCachedQuestions 86401001 (cacheQuestions 1000 [formatted_example] fresh_store) = None"
  using cache_round_trip [of fresh_store 1000 1000 "[formatted_example]"]
        cache_round_trip [of fresh_store 86401001 1000 "[formatted_example]"]
  by (simp add: fresh_store_def)

section \<open>Cooldown\<close>

text \<open>
  Claim C6. Once \<^verbatim>\<open>handleRateLimiting\<close> at clock value \<open>now\<close> has stored the deadline
  \<open>now + 30min\<close>, every \<^verbatim>\<open>shouldUseApi\<close> call at a clock value strictly before the deadline
  answers false and leaves the store as it is (so the next call meets the same store);
  a call that answers true is at a clock value of at least \<open>now + 30min\<close>.
\<close>

theorem cooldown_blocks_fetch:
  assumes "handleRateLimiting now ls = Inr ls'"
  shows "(t < now + 30 * 60 * 1000 \<longrightarrow> shouldUseApi t ls' = (False, ls'))
       \<and> (fst (shouldUseApi t ls') \<longrightarrow> now + 30 * 60 * 1000 \<le> t)"
proof -
  from assms have av: "available ls'" and
    it: "items ls' API_COOLDOWN_KEY = Some (Text (toString (Num (now + API_COOLDOWN))))"
    by (auto simp: handleRateLimiting_def setItem_def split: if_splits)
  have 1: "t < now + 30 * 60 * 1000 \<Longrightarrow> shouldUseApi t ls' = (False, ls')"
    using av it
    by (simp add: shouldUseApi_def getItem_def toString_nonempty parseInt_toString
        API_COOLDOWN_def del: toString.simps)
  then show ?thesis by (cases "t < now + 30 * 60 * 1000") auto
qed

theorem cooldown_blocks_fetch_witness:
  "\<exists>ls'. handleRateLimiting 1000 fresh_store = Inr ls'
         \<and> shouldUseApi 1000 ls' = (False, ls')
         \<and> shouldUseApi 1800999 ls' = (False, ls')
         \<and> fst (shouldUseApi 1801000 ls')
         \<and> (1000 :: int) + 30 * 60 * 1000 \<le> 1801000"
proof -
  define ls' where
    "ls' = fresh_store\<lparr>items := (items fresh_store)
             (API_COOLDOWN_KEY \<mapsto> Text (toString (Num (1000 + API_COOLDOWN))))\<rparr>"
  have h: "handleRateLimiting 1000 fresh_store = Inr ls'"
    by (simp add: handleRateLimiting_def setItem_def fresh_store_def ls'_def
        del: toString.simps)
  have works: "available ls'" "\<not> full ls' REQUEST_COUNT_KEY"
    "\<not> full ls' LAST_REQUEST_TIME_KEY"
    by (simp_all add: ls'_def fresh_store_def)
  have at_deadline: "fst (shouldUseApi 1801000 ls')"
    unfolding shouldUseApi_working [OF works] using key_neq
    by (auto simp add: ls'_def fresh_store_def or_zero_def parseInt_zero parseInt_toString
        toString_nonempty API_COOLDOWN_def Let_def simp del: toString.simps)
  show ?thesis
    using h at_deadline cooldown_blocks_fetch [OF h, of 1000]
      cooldown_blocks_fetch [OF h, of 1800999] cooldown_blocks_fetch [OF h, of 1801000]
    by simp
qed

section \<open>Rolling request window\<close>

text \<open>
  Claim C5, as the code has it. On a store that takes the two throttle writes and whose
  request count reads as a number \<open>c \<ge> 0\<close> (a missing count reads as 0):
  \<^item> if five consecutive \<^verbatim>\<open>shouldUseApi\<close> calls answer true and each call, the sixth
    included, comes at most 5 minutes after the one before, then the sixth call answers
    false and leaves the store as it is;
  \<^item> if no cooldown is active at \<open>t\<close> and the last request is stamped \<open>l\<close> with
    \<open>t - l > 5min\<close>, the count is reset: the call at \<open>t\<close> answers true and stores the
    count 1 and the stamp \<open>t\<close>.
\<close>

theorem throttle_window:
  assumes works: "available ls" "\<not> full ls REQUEST_COUNT_KEY" "\<not> full ls LAST_REQUEST_TIME_KEY"
  shows "(parseInt_text (or_zero (items ls REQUEST_COUNT_KEY)) = Num c \<and> 0 \<le> c
          \<and> shouldUseApi_calls [t1, t2, t3, t4, t5] ls = ([True, True, True, True, True], ls5)
          \<and> t2 - t1 \<le> 5 * 60 * 1000 \<and> t3 - t2 \<le> 5 * 60 * 1000 \<and> t4 - t3 \<le> 5 * 60 * 1000
          \<and> t5 - t4 \<le> 5 * 60 * 1000 \<and> t6 - t5 \<le> 5 * 60 * 1000
          \<longrightarrow> shouldUseApi t6 ls5 = (False, ls5))
       \<and> (\<not> (truthy (items ls API_COOLDOWN_KEY)
                \<and> gt (parseInt_text (the (items ls API_COOLDOWN_KEY))) (Num t))
          \<and> truthy (items ls LAST_REQUEST_TIME_KEY)
          \<and> parseInt_text (the (items ls LAST_REQUEST_TIME_KEY)) = Num l
          \<and> t - l > 5 * 60 * 1000
          \<longrightarrow> (\<exists>ls'. shouldUseApi t ls = (True, ls')
                 \<and> items ls' REQUEST_COUNT_KEY = Some (Text (toString (Num 1)))
                 \<and> items ls' LAST_REQUEST_TIME_KEY = Some (Text (toString (Num t)))))"
proof (intro conjI impI)
  assume h: "parseInt_text (or_zero (items ls REQUEST_COUNT_KEY)) = Num c \<and> 0 \<le> c
          \<and> shouldUseApi_calls [t1, t2, t3, t4, t5] ls = ([True, True, True, True, True], ls5)
          \<and> t2 - t1 \<le> 5 * 60 * 1000 \<and> t3 - t2 \<le> 5 * 60 * 1000 \<and> t4 - t3 \<le> 5 * 60 * 1000
          \<and> t5 - t4 \<le> 5 * 60 * 1000 \<and> t6 - t5 \<le> 5 * 60 * 1000"
  then obtain ls1 ls2 ls3 ls4 where
    s1: "shouldUseApi t1 ls = (True, ls1)" and s2: "shouldUseApi t2 ls1 = (True, ls2)" and
    s3: "shouldUseApi t3 ls2 = (True, ls3)" and s4: "shouldUseApi t4 ls3 = (True, ls4)" and
    s5: "shouldUseApi t5 ls4 = (True, ls5)"
    unfolding calls_unroll by auto
  from allowed_first [OF works _ _ s1] h obtain c1 where
    w1: "available ls1" "\<not> full ls1 REQUEST_COUNT_KEY" "\<not> full ls1 LAST_REQUEST_TIME_KEY" and
    c1: "1 \<le> c1" "items ls1 REQUEST_COUNT_KEY = Some (Text (toString (Num c1)))" and
    l1: "items ls1 LAST_REQUEST_TIME_KEY = Some (Text (toString (Num t1)))"
    by blast
  from allowed_in_window [OF w1 c1(2) l1 _ s2] h have
    w2: "available ls2" "\<not> full ls2 REQUEST_COUNT_KEY" "\<not> full ls2 LAST_REQUEST_TIME_KEY" and
    c2: "items ls2 REQUEST_COUNT_KEY = Some (Text (toString (Num (c1 + 1))))" and
    l2: "items ls2 LAST_REQUEST_TIME_KEY = Some (Text (toString (Num t2)))"
    by blast+
  from allowed_in_window [OF w2 c2 l2 _ s3] h have
    w3: "available ls3" "\<not> full ls3 REQUEST_COUNT_KEY" "\<not> full ls3 LAST_REQUEST_TIME_KEY" and
    c3: "items ls3 REQUEST_COUNT_KEY = Some (Text (toString (Num (c1 + 1 + 1))))" and
    l3: "items ls3 LAST_REQUEST_TIME_KEY = Some (Text (toString (Num t3)))"
    by blast+
  from allowed_in_window [OF w3 c3 l3 _ s4] h have
    w4: "available ls4" "\<not> full ls4 REQUEST_COUNT_KEY" "\<not> full ls4 LAST_REQUEST_TIME_KEY" and
    c4: "items ls4 REQUEST_COUNT_KEY = Some (Text (toString (Num (c1 + 1 + 1 + 1))))" and
    l4: "items ls4 LAST_REQUEST_TIME_KEY = Some (Text (toString (Num t4)))"
    by blast+
  from allowed_in_window [OF w4 c4 l4 _ s5] h have
    w5: "available ls5" "\<not> full ls5 REQUEST_COUNT_KEY" "\<not> full ls5 LAST_REQUEST_TIME_KEY" and
    c5: "items ls5 REQUEST_COUNT_KEY = Some (Text (toString (Num (c1 + 1 + 1 + 1 + 1))))" and
    l5: "items ls5 LAST_REQUEST_TIME_KEY = Some (Text (toString (Num t5)))"
    by blast+
  have "5 \<le> c1 + 1 + 1 + 1 + 1" using c1(1) by simp
  from blocked_when_full [OF w5 c5 this l5] h
  show "shouldUseApi t6 ls5 = (False, ls5)" by blast
next
  assume h: "\<not> (truthy (items ls API_COOLDOWN_KEY)
                \<and> gt (parseInt_text (the (items ls API_COOLDOWN_KEY))) (Num t))
          \<and> truthy (items ls LAST_REQUEST_TIME_KEY)
          \<and> parseInt_text (the (items ls LAST_REQUEST_TIME_KEY)) = Num l
          \<and> t - l > 5 * 60 * 1000"
  then have reset: "truthy (items ls LAST_REQUEST_TIME_KEY)
                  \<and> gt (sub (Num t) (parseInt_text (the (items ls LAST_REQUEST_TIME_KEY))))
                       (Num (5 * 60 * 1000))"
    by simp
  show "\<exists>ls'. shouldUseApi t ls = (True, ls')
                 \<and> items ls' REQUEST_COUNT_KEY = Some (Text (toString (Num 1)))
                 \<and> items ls' LAST_REQUEST_TIME_KEY = Some (Text (toString (Num t)))"
    using h reset key_neq
    by (simp add: shouldUseApi_working [OF works] Let_def del: toString.simps)
qed


theorem throttle_window_witness:
  "shouldUseApi 400005
     (snd (shouldUseApi_calls [400000, 400001, 400002, 400003, 400004] saturated_store))
     = (False, snd (shouldUseApi_calls [400000, 400001, 400002, 400003, 400004] saturated_store))
   \<and> fst (shouldUseApi 400000 saturated_store)"
proof -
  let ?ls5 = "snd (shouldUseApi_calls [400000, 400001, 400002, 400003, 400004] saturated_store)"
  have "fst (shouldUseApi_calls [400000, 400001, 400002, 400003, 400004] saturated_store)
          = [True, True, True, True, True]"
    by (simp add: shouldUseApi_working saturated_store_def or_zero_def parseInt_zero
        parseInt_five parseInt_toString toString_nonempty key_neq Let_def
        del: toString.simps)
  then have calls: "shouldUseApi_calls [400000, 400001, 400002, 400003, 400004] saturated_store
                 = ([True, True, True, True, True], ?ls5)"
    by (simp add: prod_eq_iff)
  have st: "available saturated_store" "\<not> full saturated_store REQUEST_COUNT_KEY"
    "\<not> full saturated_store LAST_REQUEST_TIME_KEY"
    by (simp_all add: saturated_store_def)
  have cnt: "parseInt_text (or_zero (items saturated_store REQUEST_COUNT_KEY)) = Num 5"
    by (simp add: saturated_store_def or_zero_def parseInt_five key_neq)
  have last: "truthy (items saturated_store LAST_REQUEST_TIME_KEY)"
    "parseInt_text (the (items saturated_store LAST_REQUEST_TIME_KEY)) = Num 0"
    by (simp_all add: saturated_store_def parseInt_zero)
  have cool: "\<not> (truthy (items saturated_store API_COOLDOWN_KEY)
                \<and> gt (parseInt_text (the (items saturated_store API_COOLDOWN_KEY))) (Num 400000))"
    by (simp add: saturated_store_def key_neq)
  show ?thesis
    using throttle_window [OF st, of 5 400000 400001 400002 400003 400004 ?ls5 400005 400000 0]
      calls cnt last cool
    by (auto simp del: shouldUseApi_calls.simps)
qed

text \<open>
  For every throttle state the claim fails. A stored count that is not a number reads as
  \<^verbatim>\<open>NaN\<close>; \<^verbatim>\<open>NaN >= 5\<close> is false and \<^verbatim>\<open>(NaN + 1).toString()\<close> writes \<^verbatim>\<open>NaN\<close> back, so
  inside one window no call is ever refused. A negative count is counted up from where
  it stands, and the sixth call still finds it below 5. In both stores below no cooldown
  is active and six calls within five seconds all answer true.
\<close>

theorem throttle_never_blocks_on_corrupt_count:
  "available corrupt_count_store
   \<and> items corrupt_count_store API_COOLDOWN_KEY = None
   \<and> fst (shouldUseApi_calls [0, 1000, 2000, 3000, 4000, 5000] corrupt_count_store)
       = [True, True, True, True, True, True]
   \<and> available negative_count_store
   \<and> items negative_count_store API_COOLDOWN_KEY = None
   \<and> fst (shouldUseApi_calls [0, 1000, 2000, 3000, 4000, 5000] negative_count_store)
       = [True, True, True, True, True, True]"
  using key_neq
  by (auto simp add: shouldUseApi_working corrupt_count_store_def negative_count_store_def
      or_zero_def parseInt_abc parseInt_NaN_text parseInt_toString toString_nonempty Let_def
      simp del: toString.simps(2))

section \<open>Shuffling is a permutation\<close>

lemma draw_in_range:
  assumes "0 \<le> r" and "r < 1"
  shows "nat \<lfloor>r * real (i + 1)\<rfloor> \<le> i"
proof -
  have "r * real (i + 1) < real (i + 1)" using assms by simp
  then have "\<lfloor>r * real (i + 1)\<rfloor> < int (i + 1)" by (simp add: floor_less_iff)
  then show ?thesis by simp
qed

lemma mset_shuffle_loop:
  assumes "\<forall>i. 0 \<le> rnd i \<and> rnd i < 1" and "k < length xs"
  shows "mset (shuffle_loop rnd k xs) = mset xs"
  using assms(2)
proof (induction k arbitrary: xs)
  case 0
  then show ?case by simp
next
  case (Suc k)
  let ?j = "nat \<lfloor>rnd (Suc k) * real (Suc k + 1)\<rfloor>"
  have j: "?j \<le> Suc k" using assms(1) draw_in_range by blast
  let ?ys = "xs[Suc k := xs ! ?j, ?j := xs ! Suc k]"
  have "mset ?ys = mset xs"
    using mset_swap [of ?j xs "Suc k"] j Suc.prems by simp
  moreover have "k < length ?ys" using Suc.prems by simp
  ultimately show ?case using Suc.IH [of ?ys] by (simp add: Let_def)
qed

lemma mset_shuffleArray:
  assumes "\<forall>i. 0 \<le> rnd i \<and> rnd i < 1"
  shows "mset (shuffleArray rnd xs) = mset xs"
proof (cases xs)
  case Nil
  then show ?thesis by (simp add: shuffleArray_def)
next
  case (Cons a list)
  then show ?thesis
    unfolding shuffleArray_def using mset_shuffle_loop [OF assms, of "length xs - 1" xs] by simp
qed

lemma length_shuffleArray:
  assumes "\<forall>i. 0 \<le> rnd i \<and> rnd i < 1"
  shows "length (shuffleArray rnd xs) = length xs"
  using mset_shuffleArray [OF assms, of xs] by (rule mset_eq_length)

lemma findIndex_from_found:
  assumes "\<exists>x \<in> set xs. P x"
  shows "k \<le> findIndex_from P k xs \<and> findIndex_from P k xs < k + int (length xs)
       \<and> P (xs ! nat (findIndex_from P k xs - k))
       \<and> (\<forall>m < nat (findIndex_from P k xs - k). \<not> P (xs ! m))"
  using assms
proof (induction xs arbitrary: k)
  case Nil
  then show ?case by simp
next
  case (Cons x xs)
  show ?case
  proof (cases "P x")
    case True
    then show ?thesis by simp
  next
    case False
    with Cons.prems have ex: "\<exists>x \<in> set xs. P x" by simp
    note IH = Cons.IH [OF ex, of "k + 1"]
    let ?r = "findIndex_from P (k + 1) xs"
    have "k + 1 \<le> ?r" using IH by blast
    then have eq: "nat (?r - k) = Suc (nat (?r - (k + 1)))" by linarith
    have r: "findIndex_from P k (x # xs) = ?r" using False by simp
    show ?thesis
      unfolding r eq using False IH by (auto simp: less_Suc_eq_0_disj)
  qed
qed

lemma findIndex_found:
  assumes "\<exists>x \<in> set xs. P x"
  shows "0 \<le> findIndex P xs \<and> findIndex P xs < int (length xs)
       \<and> P (xs ! nat (findIndex P xs))
       \<and> (\<forall>m < nat (findIndex P xs). \<not> P (xs ! m))"
  using findIndex_from_found [OF assms, of 0] by (simp add: findIndex_def)

section \<open>Options of a normalised question\<close>

text \<open>
  Claim C3, as the code has it. For every raw record with a non-empty correct answer,
  exactly three incorrect answers and a difficulty that is a key of the value ladder
  (\<open>easy\<close>, \<open>medium\<close> or \<open>hard\<close>), and for every sequence of draws of \<^verbatim>\<open>Math.random()\<close>
  in \<open>[0, 1)\<close>, normalisation produces a question whose options are four, are the
  decoded correct answer together with the three decoded incorrect answers as a
  multiset, and whose \<^verbatim>\<open>correctAnswer\<close> is a position in \<open>0..3\<close> holding the decoded
  correct answer, with no earlier position holding the same text.
\<close>

theorem normalize_options:
  assumes "correct_answer q \<noteq> []" and "length (incorrect_answers q) = 3"
    and "api_difficulty q \<in> {''easy'', ''medium'', ''hard''}"
    and "\<forall>i. 0 \<le> rnd i \<and> rnd i < 1"
  shows "\<exists>f. formatQuestion dec rnd q index = Inr f
           \<and> length (options f) = 4
           \<and> mset (options f) = mset (dec (correct_answer q) # map dec (incorrect_answers q))
           \<and> 0 \<le> correctAnswer f \<and> correctAnswer f < 4
           \<and> options f ! nat (correctAnswer f) = dec (correct_answer q)
           \<and> (\<forall>m < nat (correctAnswer f). options f ! m \<noteq> dec (correct_answer q))"
proof -
  let ?all = "dec (correct_answer q) # map dec (incorrect_answers q)"
  let ?sh = "shuffleArray rnd ?all"
  let ?ix = "findIndex (\<lambda>option. option = dec (correct_answer q)) ?sh"
  obtain ladder where ladder: "difficultyValueMap (api_difficulty q) = Some ladder"
    using assms(3) by (auto simp: difficultyValueMap_def)
  have ms: "mset ?sh = mset ?all" by (rule mset_shuffleArray [OF assms(4)])
  have len: "length ?sh = 4" using length_shuffleArray [OF assms(4), of ?all] assms(2) by simp
  have "dec (correct_answer q) \<in> set ?sh"
    using ms by (metis list.set_intros(1) set_mset_mset)
  then have ex: "\<exists>x \<in> set ?sh. x = dec (correct_answer q)" by simp
  note fi = findIndex_found [OF ex]
  have "formatQuestion dec rnd q index =
          Inr \<lparr>id' = int index + 1, question = dec (api_question q), options = ?sh,
               correctAnswer = ?ix, category = dec (api_category q),
               difficulty = api_difficulty q, value' = ladder ! (index mod 5)\<rparr>"
    using assms(1,2) ladder by (simp add: formatQuestion_def Let_def)
  then show ?thesis using ms len fi by simp
qed

theorem normalize_options_witness:
  "\<exists>f. formatQuestion id rnd_zero raw_example 0 = Inr f
       \<and> length (options f) = 4
       \<and> mset (options f) = mset [''H2O'', ''CO2'', ''NaCl'', ''O2'']
       \<and> options f ! nat (correctAnswer f) = ''H2O''"
  using normalize_options [of raw_example rnd_zero id 0]
  by (auto simp: raw_example_def rnd_zero_def)

text \<open>
  Without the condition on the difficulty the claim fails: a record with a non-empty
  correct answer and three incorrect answers whose difficulty is \<open>expert\<close> makes the
  normalisation throw a \<open>TypeError\<close>, and no question is produced.
\<close>

theorem normalize_unknown_difficulty_throws:
  "correct_answer raw_unknown_difficulty \<noteq> []
   \<and> length (incorrect_answers raw_unknown_difficulty) = 3
   \<and> formatQuestion id rnd_zero raw_unknown_difficulty 0 = Inl TypeError"
  by (simp add: raw_unknown_difficulty_def raw_example_def formatQuestion_def
      difficultyValueMap_def Let_def)

section \<open>The fallback sample\<close>

lemma pool_ids: "map id' getAllFallbackQuestions = [1..100]"
  by (simp add: getAllFallbackQuestions_def upto.simps)

lemma pool_difficulties:
  "map difficulty getAllFallbackQuestions =
     replicate 5 ''easy'' @ replicate 4 ''medium'' @ replicate 6 ''hard''
     @ replicate 30 ''easy'' @ replicate 25 ''medium'' @ replicate 30 ''hard''"
  by (simp add: getAllFallbackQuestions_def numeral_eq_Suc)

lemma pool_length: "length getAllFallbackQuestions = 100"
proof -
  have "length (map id' getAllFallbackQuestions) = length [1..100::int]"
    by (simp only: pool_ids)
  then show ?thesis by simp
qed

lemma pool_distinct_ids: "distinct (map id' getAllFallbackQuestions)"
  unfolding pool_ids by (simp only: distinct_upto)

lemma pool_easy: "length (filter (\<lambda>q. difficulty q = ''easy'') getAllFallbackQuestions) = 35"
proof -
  have "length (filter (\<lambda>d. d = ''easy'') (map difficulty getAllFallbackQuestions)) = 35"
    unfolding pool_difficulties by simp
  then show ?thesis by (simp add: filter_map o_def)
qed

lemma pool_medium: "length (filter (\<lambda>q. difficulty q = ''medium'') getAllFallbackQuestions) = 29"
proof -
  have "length (filter (\<lambda>d. d = ''medium'') (map difficulty getAllFallbackQuestions)) = 29"
    unfolding pool_difficulties by simp
  then show ?thesis by (simp add: filter_map o_def)
qed

lemma pool_hard: "length (filter (\<lambda>q. difficulty q = ''hard'') getAllFallbackQuestions) = 36"
proof -
  have "length (filter (\<lambda>d. d = ''hard'') (map difficulty getAllFallbackQuestions)) = 36"
    unfolding pool_difficulties by simp
  then show ?thesis by (simp add: filter_map o_def)
qed

lemma three_buckets_subset:
  "filter_mset (\<lambda>q. difficulty q = ''easy'') M + filter_mset (\<lambda>q. difficulty q = ''medium'') M
     + filter_mset (\<lambda>q. difficulty q = ''hard'') M \<subseteq># M"
  by (rule mset_subset_eqI) simp

lemma mset_take_subset: "mset (take n xs) \<subseteq># mset xs"
  by (metis append_take_drop_id mset_append mset_subset_eq_add_left)

lemma mset_slice0_subset: "mset (slice0 xs n) \<subseteq># mset xs"
  by (simp add: slice0_def mset_take_subset)

lemma distinct_submultiset:
  assumes "mset xs \<subseteq># mset ys" and "distinct ys"
  shows "distinct xs"
proof -
  have "count (mset xs) a = (if a \<in> set xs then 1 else 0)" for a
  proof (cases "a \<in> set xs")
    case True
    have "count (mset xs) a \<le> count (mset ys) a"
      using assms(1) by (rule mset_subset_eq_count)
    moreover have "count (mset ys) a \<le> 1"
      using assms(2) by (simp add: distinct_count_atmost_1)
    moreover have "0 < count (mset xs) a"
      using True by (simp only: count_greater_zero_iff set_mset_mset)
    ultimately have "count (mset xs) a = 1" by linarith
    with True show ?thesis by simp
  next
    case False
    then show ?thesis by simp
  qed
  then show ?thesis using distinct_count_atmost_1 [of xs] by blast
qed

lemma distinct_map_submultiset:
  assumes "mset xs \<subseteq># mset ys" and "distinct (map f ys)"
  shows "distinct (map f xs)"
proof -
  have "mset (map f xs) \<subseteq># mset (map f ys)"
    using assms(1) by (simp add: image_mset_subseteq_mono)
  then show ?thesis using assms(2) by (rule distinct_submultiset)
qed

text \<open>
  Claim C4. For every sequence of draws of the three shuffles (each draw in \<open>[0, 1)\<close>),
  \<^verbatim>\<open>getRandomFallbackQuestions(15)\<close> returns exactly 15 questions, in non-decreasing order
  of value, which together form a sub-multiset of the pool of 100 questions (each drawn at
  most as often as the pool holds it), and no two of them share an id.
\<close>

theorem fallback_sample_15:
  assumes "\<forall>i. 0 \<le> rnd_easy i \<and> rnd_easy i < 1"
    and "\<forall>i. 0 \<le> rnd_medium i \<and> rnd_medium i < 1"
    and "\<forall>i. 0 \<le> rnd_hard i \<and> rnd_hard i < 1"
  shows "length (getRandomFallbackQuestions (rnd_easy, rnd_medium, rnd_hard) 15) = 15
       \<and> sorted (map value' (getRandomFallbackQuestions (rnd_easy, rnd_medium, rnd_hard) 15))
       \<and> mset (getRandomFallbackQuestions (rnd_easy, rnd_medium, rnd_hard) 15)
            \<subseteq># mset getAllFallbackQuestions
       \<and> length getAllFallbackQuestions = 100
       \<and> distinct (map id' (getRandomFallbackQuestions (rnd_easy, rnd_medium, rnd_hard) 15))"
proof -
  define E where "E = filter (\<lambda>q. difficulty q = ''easy'') getAllFallbackQuestions"
  define M where "M = filter (\<lambda>q. difficulty q = ''medium'') getAllFallbackQuestions"
  define H where "H = filter (\<lambda>q. difficulty q = ''hard'') getAllFallbackQuestions"
  define sel where "sel = slice0 (shuffleArray rnd_easy E) 4 @ slice0 (shuffleArray rnd_medium M) 4
                @ slice0 (shuffleArray rnd_hard H) 7"
  have four: "\<lfloor>real_of_int 15 * (33 / 100)\<rfloor> = (4::int)" by simp
  have res: "getRandomFallbackQuestions (rnd_easy, rnd_medium, rnd_hard) 15 = sort_key value' sel"
    unfolding getRandomFallbackQuestions_def Let_def prod.case four sel_def E_def M_def H_def
    by simp
  have lens: "length (shuffleArray rnd_easy E) = 35" "length (shuffleArray rnd_medium M) = 29"
    "length (shuffleArray rnd_hard H) = 36"
    unfolding E_def M_def H_def
    by (simp_all only: length_shuffleArray [OF assms(1)] length_shuffleArray [OF assms(2)]
        length_shuffleArray [OF assms(3)] pool_easy pool_medium pool_hard)
  have len: "length sel = 15"
    unfolding sel_def by (simp add: slice0_def lens)
  have e: "mset (slice0 (shuffleArray rnd_easy E) 4) \<subseteq># mset E"
    using mset_slice0_subset [of "shuffleArray rnd_easy E" 4]
    by (simp only: mset_shuffleArray [OF assms(1)])
  have m: "mset (slice0 (shuffleArray rnd_medium M) 4) \<subseteq># mset M"
    using mset_slice0_subset [of "shuffleArray rnd_medium M" 4]
    by (simp only: mset_shuffleArray [OF assms(2)])
  have h: "mset (slice0 (shuffleArray rnd_hard H) 7) \<subseteq># mset H"
    using mset_slice0_subset [of "shuffleArray rnd_hard H" 7]
    by (simp only: mset_shuffleArray [OF assms(3)])
  have "mset sel \<subseteq># mset E + (mset M + mset H)"
    unfolding sel_def mset_append
    by (rule subset_mset.add_mono [OF e subset_mset.add_mono [OF m h]])
  also have "\<dots> \<subseteq># mset getAllFallbackQuestions"
    using three_buckets_subset [of "mset getAllFallbackQuestions"]
    unfolding E_def M_def H_def by (simp only: mset_filter add.assoc)
  finally have sub: "mset sel \<subseteq># mset getAllFallbackQuestions" .
  have dist: "distinct (map id' (sort_key value' sel))"
    by (rule distinct_map_submultiset [OF _ pool_distinct_ids]) (simp add: sub)
  show ?thesis
    unfolding res using len sub dist pool_length by simp
qed

theorem fallback_sample_15_witness:
  "length (getRandomFallbackQuestions (rnd_half, rnd_zero, rnd_half) 15) = 15
   \<and> sorted (map value' (getRandomFallbackQuestions (rnd_half, rnd_zero, rnd_half) 15))
   \<and> distinct (map id' (getRandomFallbackQuestions (rnd_half, rnd_zero, rnd_half) 15))"
  using fallback_sample_15 [of rnd_half rnd_zero rnd_half]
  by (simp add: rnd_half_def rnd_zero_def)

section \<open>Acquisition: cache hit\<close>

lemma shouldUseApi_flags:
  assumes "shouldUseApi t ls = (b, ls1)"
  shows "available ls1 = available ls \<and> full ls1 = full ls"
  using assms
  by (auto simp: shouldUseApi_def getItem_def setItem_def Let_def
      split: sum.splits if_splits simp del: toString.simps)

lemma formatQuestion_ok:
  assumes "correct_answer q \<noteq> []" and "length (incorrect_answers q) = 3"
    and "api_difficulty q \<in> {''easy'', ''medium'', ''hard''}"
  shows "\<exists>f. formatQuestion dec r q i = Inr f"
  using assms by (auto simp: formatQuestion_def Let_def difficultyValueMap_def)

lemma formatQuestions_ok:
  assumes "\<forall>q \<in> set qs. correct_answer q \<noteq> [] \<and> length (incorrect_answers q) = 3
              \<and> api_difficulty q \<in> {''easy'', ''medium'', ''hard''}"
  shows "\<exists>fs. formatQuestions dec rnd i qs = Inr fs \<and> length fs = length qs"
  using assms
proof (induction qs arbitrary: i)
  case Nil
  then show ?case by simp
next
  case (Cons q qs)
  from Cons.prems obtain f where f: "formatQuestion dec (rnd i) q i = Inr f"
    using formatQuestion_ok [of q dec "rnd i" i] by auto
  from Cons.IH [of "Suc i"] Cons.prems obtain fs where
    fs: "formatQuestions dec rnd (Suc i) qs = Inr fs" "length fs = length qs" by auto
  show ?case using f fs by simp
qed

lemma getCachedQuestions_valid:
  assumes "available ls"
    and "items ls CACHE_KEY = Some (Json cached)"
    and "items ls CACHE_TIMESTAMP_KEY = Some (Text (toString (Num stored_at)))"
    and "now - stored_at \<le> 24 * 60 * 60 * 1000"
  shows "getCachedQuestions now ls = Some cached"
  using assms
  by (simp add: getCachedQuestions_def getItem_def toString_nonempty parseInt_toString
      CACHE_EXPIRY_def del: toString.simps)

text \<open>
  Claim C8. Whenever the store holds a cached question set whose time stamp is at most
  24 hours old when \<^verbatim>\<open>fetchQuestions\<close> starts, \<^verbatim>\<open>fetchQuestions\<close> resolves with exactly
  that set, whatever it contains, issues no request, and leaves the whole store, the
  three throttle entries included, as it was: the throttle is not consulted.
\<close>

theorem cache_hit_returns_cached_set:
  assumes "available ls"
    and "items ls CACHE_KEY = Some (Json cached)"
    and "items ls CACHE_TIMESTAMP_KEY = Some (Text (toString (Num stored_at)))"
    and "t_start w - stored_at \<le> 24 * 60 * 60 * 1000"
  shows "fetchQuestions w amount ls = \<lparr>returned = Inr cached, storage = ls, requests = 0\<rparr>"
  using getCachedQuestions_valid [OF assms] by (simp add: fetchQuestions_def)

theorem cache_hit_returns_cached_set_witness:
  "fetchQuestions live_world 15 cached_store
     = \<lparr>returned = Inr [formatted_example], storage = cached_store, requests = 0\<rparr>"
proof -
  have "available cached_store"
    and "items cached_store CACHE_KEY = Some (Json [formatted_example])"
    and "items cached_store CACHE_TIMESTAMP_KEY = Some (Text (toString (Num 0)))"
    and "t_start live_world - 0 \<le> 24 * 60 * 60 * 1000"
    using key_neq by (simp_all add: cached_store_def live_world_def del: toString.simps)
  then show ?thesis by (rule cache_hit_returns_cached_set)
qed

section \<open>Acquisition: a well-formed live fetch\<close>

lemma formatQuestion_fields:
  assumes "correct_answer q \<noteq> []" and "length (incorrect_answers q) = 3"
    and "api_difficulty q \<in> {''easy'', ''medium'', ''hard''}"
  shows "formatQuestion dec r q i =
           Inr \<lparr>id' = int i + 1,
                question = dec (api_question q),
                options = shuffleArray r (dec (correct_answer q) # map dec (incorrect_answers q)),
                correctAnswer =
                  findIndex (\<lambda>option. option = dec (correct_answer q))
                    (shuffleArray r (dec (correct_answer q) # map dec (incorrect_answers q))),
                category = dec (api_category q),
                difficulty = api_difficulty q,
                value' =
                  (if api_difficulty q = ''easy'' then [100, 200, 300, 500, 1000]
                   else if api_difficulty q = ''medium'' then [2000, 4000, 8000, 16000, 32000]
                   else [64000, 125000, 250000, 500000, 1000000]) ! (i mod 5)\<rparr>"
  using assms by (auto simp: formatQuestion_def Let_def difficultyValueMap_def)

lemma formatQuestions_nth:
  assumes "formatQuestions dec rnd i qs = Inr fs"
  shows "length fs = length qs
       \<and> (\<forall>k < length qs. formatQuestion dec (rnd (i + k)) (qs ! k) (i + k) = Inr (fs ! k))"
  using assms
proof (induction qs arbitrary: i fs)
  case Nil
  then show ?case by simp
next
  case (Cons q qs)
  from Cons.prems obtain f fs' where
    f: "formatQuestion dec (rnd i) q i = Inr f" and
    fs': "formatQuestions dec rnd (Suc i) qs = Inr fs'" and
    fs: "fs = f # fs'"
    by (auto split: sum.splits)
  note IH = Cons.IH [OF fs']
  show ?case
  proof (intro conjI allI impI)
    show "length fs = length (q # qs)" using IH fs by simp
  next
    fix k assume k: "k < length (q # qs)"
    show "formatQuestion dec (rnd (i + k)) ((q # qs) ! k) (i + k) = Inr (fs ! k)"
    proof (cases k)
      case 0
      then show ?thesis using f fs by simp
    next
      case (Suc m)
      then have "m < length qs" using k by simp
      then have "formatQuestion dec (rnd (Suc i + m)) (qs ! m) (Suc i + m) = Inr (fs' ! m)"
        using IH by blast
      then show ?thesis using Suc fs by simp
    qed
  qed
qed


lemma shuffled_options:
  assumes "length incs = 3" and "\<forall>i. 0 \<le> rnd i \<and> rnd i < 1"
  shows "length (shuffleArray rnd (c # incs)) = 4
       \<and> mset (shuffleArray rnd (c # incs)) = mset (c # incs)
       \<and> 0 \<le> findIndex (\<lambda>option. option = c) (shuffleArray rnd (c # incs))
       \<and> findIndex (\<lambda>option. option = c) (shuffleArray rnd (c # incs)) < 4
       \<and> shuffleArray rnd (c # incs)
             ! nat (findIndex (\<lambda>option. option = c) (shuffleArray rnd (c # incs))) = c
       \<and> (\<forall>m < nat (findIndex (\<lambda>option. option = c) (shuffleArray rnd (c # incs))).
             shuffleArray rnd (c # incs) ! m \<noteq> c)"
proof -
  define sh where "sh = shuffleArray rnd (c # incs)"
  have ms: "mset sh = mset (c # incs)"
    unfolding sh_def by (rule mset_shuffleArray [OF assms(2)])
  have len: "length sh = 4"
    unfolding sh_def using length_shuffleArray [OF assms(2), of "c # incs"] assms(1) by simp
  have "c \<in> set sh" using ms by (metis list.set_intros(1) set_mset_mset)
  then have "\<exists>x \<in> set sh. x = c" by simp
  from findIndex_found [OF this] show ?thesis
    using ms len unfolding sh_def by simp
qed

text \<open>
  Claim C2. Let the store hold nothing under the cache key, the throttle allow the fetch,
  and the three requests be fulfilled with a status other than 429, \<^verbatim>\<open>response_code\<close> 0
  and five records each, every record with a non-empty correct answer, three incorrect
  answers and a difficulty of the ladder. Then \<^verbatim>\<open>fetchQuestions\<close> issues three requests
  and resolves with 15 questions sorted by value, a stable sort of the normalised
  records, where the question made from record \<open>k\<close> (easy 0..4, medium 5..9, hard
  10..14) has
  \<^item> the id \<open>k + 1\<close>, the decoded question and category, the record's difficulty,
  \<^item> the value at slot \<open>k mod 5\<close> of the ladder of that difficulty,
  \<^item> the shuffled decoded answers as options and the first position of the decoded
    correct answer among them as \<^verbatim>\<open>correctAnswer\<close>; for draws in \<open>[0, 1)\<close> these are four
    options, a permutation of the decoded answers, with \<^verbatim>\<open>correctAnswer\<close> in \<open>0..3\<close>
    pointing at the decoded correct answer.
  Before returning, \<^verbatim>\<open>cacheQuestions\<close> is called with the sorted set; on a store that
  takes the two cache writes the store then holds that set under the cache key, stamped
  with the clock value of the write, and \<^verbatim>\<open>getCachedQuestions\<close> reads it back.
\<close>

theorem live_fetch_sorted_and_cached:
  assumes empty: "items ls CACHE_KEY = None"
    and allowed: "shouldUseApi (t_start w) ls = (True, ls1)"
    and net: "network w = Inr (easyResponse, mediumResponse, hardResponse)"
    and status: "status easyResponse \<noteq> 429" "status mediumResponse \<noteq> 429"
      "status hardResponse \<noteq> 429"
    and bodies: "data easyResponse = Some \<lparr>response_code = 0, results = Some easy\<rparr>"
      "data mediumResponse = Some \<lparr>response_code = 0, results = Some medium\<rparr>"
      "data hardResponse = Some \<lparr>response_code = 0, results = Some hard\<rparr>"
    and five: "length easy = 5" "length medium = 5" "length hard = 5"
    and records: "records = easy @ medium @ hard"
    and norm: "\<forall>q \<in> set records.
                 correct_answer q \<noteq> [] \<and> length (incorrect_answers q) = 3
                 \<and> api_difficulty q \<in> {''easy'', ''medium'', ''hard''}"
  shows "\<exists>normalised.
           length normalised = 15
         \<and> (\<forall>k < 15.
                id' (normalised ! k) = int k + 1
              \<and> question (normalised ! k) = decode w (api_question (records ! k))
              \<and> category (normalised ! k) = decode w (api_category (records ! k))
              \<and> difficulty (normalised ! k) = api_difficulty (records ! k)
              \<and> value' (normalised ! k) =
                    (if api_difficulty (records ! k) = ''easy''
                     then [100, 200, 300, 500, 1000]
                     else if api_difficulty (records ! k) = ''medium''
                     then [2000, 4000, 8000, 16000, 32000]
                     else [64000, 125000, 250000, 500000, 1000000]) ! (k mod 5)
              \<and> options (normalised ! k) =
                    shuffleArray (rnd_options w k)
                      (decode w (correct_answer (records ! k))
                         # map (decode w) (incorrect_answers (records ! k)))
              \<and> correctAnswer (normalised ! k) =
                    findIndex (\<lambda>option. option = decode w (correct_answer (records ! k)))
                      (options (normalised ! k))
              \<and> ((\<forall>i. 0 \<le> rnd_options w k i \<and> rnd_options w k i < 1) \<longrightarrow>
                     length (options (normalised ! k)) = 4
                   \<and> mset (options (normalised ! k)) =
                         mset (decode w (correct_answer (records ! k))
                                 # map (decode w) (incorrect_answers (records ! k)))
                   \<and> 0 \<le> correctAnswer (normalised ! k) \<and> correctAnswer (normalised ! k) < 4
                   \<and> options (normalised ! k) ! nat (correctAnswer (normalised ! k))
                         = decode w (correct_answer (records ! k))))
         \<and> returned (fetchQuestions w amount ls) = Inr (sort_key value' normalised)
         \<and> length (sort_key value' normalised) = 15
         \<and> sorted (map value' (sort_key value' normalised))
         \<and> mset (sort_key value' normalised) = mset normalised
         \<and> requests (fetchQuestions w amount ls) = 3
         \<and> storage (fetchQuestions w amount ls)
               = cacheQuestions (t_settled w) (sort_key value' normalised) ls1
         \<and> (available ls \<and> \<not> full ls CACHE_KEY \<and> \<not> full ls CACHE_TIMESTAMP_KEY \<longrightarrow>
                items (storage (fetchQuestions w amount ls)) CACHE_KEY
                  = Some (Json (sort_key value' normalised))
              \<and> items (storage (fetchQuestions w amount ls)) CACHE_TIMESTAMP_KEY
                  = Some (Text (toString (Num (t_settled w))))
              \<and> getCachedQuestions (t_settled w) (storage (fetchQuestions w amount ls))
                  = Some (sort_key value' normalised))"
proof -
  have len_rec: "length records = 15" using records five by simp
  obtain normalised where
    fmt: "formatQuestions (decode w) (rnd_options w) 0 records = Inr normalised"
    using formatQuestions_ok [OF norm] by blast
  from formatQuestions_nth [OF fmt] len_rec have
    len: "length normalised = 15" and
    nth: "\<And>k. k < 15 \<Longrightarrow>
            formatQuestion (decode w) (rnd_options w k) (records ! k) k = Inr (normalised ! k)"
    by simp_all
  define sorted_set where "sorted_set = sort_key value' normalised"
  have fields: "id' (normalised ! k) = int k + 1
              \<and> question (normalised ! k) = decode w (api_question (records ! k))
              \<and> category (normalised ! k) = decode w (api_category (records ! k))
              \<and> difficulty (normalised ! k) = api_difficulty (records ! k)
              \<and> value' (normalised ! k) =
                    (if api_difficulty (records ! k) = ''easy''
                     then [100, 200, 300, 500, 1000]
                     else if api_difficulty (records ! k) = ''medium''
                     then [2000, 4000, 8000, 16000, 32000]
                     else [64000, 125000, 250000, 500000, 1000000]) ! (k mod 5)
              \<and> options (normalised ! k) =
                    shuffleArray (rnd_options w k)
                      (decode w (correct_answer (records ! k))
                         # map (decode w) (incorrect_answers (records ! k)))
              \<and> correctAnswer (normalised ! k) =
                    findIndex (\<lambda>option. option = decode w (correct_answer (records ! k)))
                      (options (normalised ! k))
              \<and> ((\<forall>i. 0 \<le> rnd_options w k i \<and> rnd_options w k i < 1) \<longrightarrow>
                     length (options (normalised ! k)) = 4
                   \<and> mset (options (normalised ! k)) =
                         mset (decode w (correct_answer (records ! k))
                                 # map (decode w) (incorrect_answers (records ! k)))
                   \<and> 0 \<le> correctAnswer (normalised ! k) \<and> correctAnswer (normalised ! k) < 4
                   \<and> options (normalised ! k) ! nat (correctAnswer (normalised ! k))
                         = decode w (correct_answer (records ! k)))"
    if k: "k < 15" for k
  proof -
    have q: "records ! k \<in> set records" using k len_rec by simp
    then have ok: "correct_answer (records ! k) \<noteq> []"
      "length (incorrect_answers (records ! k)) = 3"
      "api_difficulty (records ! k) \<in> {''easy'', ''medium'', ''hard''}"
      using norm by blast+
    define f where "f = normalised ! k"
    define q where "q = records ! k"
    have eq: "f = \<lparr>id' = int k + 1,
                question = decode w (api_question q),
                options = shuffleArray (rnd_options w k)
                            (decode w (correct_answer q) # map (decode w) (incorrect_answers q)),
                correctAnswer =
                  findIndex (\<lambda>option. option = decode w (correct_answer q))
                    (shuffleArray (rnd_options w k)
                       (decode w (correct_answer q) # map (decode w) (incorrect_answers q))),
                category = decode w (api_category q),
                difficulty = api_difficulty q,
                value' =
                  (if api_difficulty q = ''easy'' then [100, 200, 300, 500, 1000]
                   else if api_difficulty q = ''medium'' then [2000, 4000, 8000, 16000, 32000]
                   else [64000, 125000, 250000, 500000, 1000000]) ! (k mod 5)\<rparr>"
      using nth [OF k] formatQuestion_fields [OF ok, of "decode w" "rnd_options w k" k]
      unfolding f_def q_def by simp
    have perm: "length (options f) = 4
                   \<and> mset (options f) =
                         mset (decode w (correct_answer q) # map (decode w) (incorrect_answers q))
                   \<and> 0 \<le> correctAnswer f \<and> correctAnswer f < 4
                   \<and> options f ! nat (correctAnswer f) = decode w (correct_answer q)"
      if draws: "\<forall>i. 0 \<le> rnd_options w k i \<and> rnd_options w k i < 1"
    proof -
      have "length (map (decode w) (incorrect_answers q)) = 3"
        using ok(2) unfolding q_def by simp
      from shuffled_options [OF this draws, of "decode w (correct_answer q)"]
      show ?thesis unfolding eq by simp
    qed
    have plain: "id' f = int k + 1" "question f = decode w (api_question q)"
      "category f = decode w (api_category q)" "difficulty f = api_difficulty q"
      "value' f =
         (if api_difficulty q = ''easy'' then [100, 200, 300, 500, 1000]
          else if api_difficulty q = ''medium'' then [2000, 4000, 8000, 16000, 32000]
          else [64000, 125000, 250000, 500000, 1000000]) ! (k mod 5)"
      "options f = shuffleArray (rnd_options w k)
                     (decode w (correct_answer q) # map (decode w) (incorrect_answers q))"
      "correctAnswer f =
         findIndex (\<lambda>option. option = decode w (correct_answer q)) (options f)"
      unfolding eq by simp_all
    show ?thesis
      using plain perm unfolding f_def q_def by blast
  qed
  then have all_fields: "\<forall>k < 15.
                id' (normalised ! k) = int k + 1
              \<and> question (normalised ! k) = decode w (api_question (records ! k))
              \<and> category (normalised ! k) = decode w (api_category (records ! k))
              \<and> difficulty (normalised ! k) = api_difficulty (records ! k)
              \<and> value' (normalised ! k) =
                    (if api_difficulty (records ! k) = ''easy''
                     then [100, 200, 300, 500, 1000]
                     else if api_difficulty (records ! k) = ''medium''
                     then [2000, 4000, 8000, 16000, 32000]
                     else [64000, 125000, 250000, 500000, 1000000]) ! (k mod 5)
              \<and> options (normalised ! k) =
                    shuffleArray (rnd_options w k)
                      (decode w (correct_answer (records ! k))
                         # map (decode w) (incorrect_answers (records ! k)))
              \<and> correctAnswer (normalised ! k) =
                    findIndex (\<lambda>option. option = decode w (correct_answer (records ! k)))
                      (options (normalised ! k))
              \<and> ((\<forall>i. 0 \<le> rnd_options w k i \<and> rnd_options w k i < 1) \<longrightarrow>
                     length (options (normalised ! k)) = 4
                   \<and> mset (options (normalised ! k)) =
                         mset (decode w (correct_answer (records ! k))
                                 # map (decode w) (incorrect_answers (records ! k)))
                   \<and> 0 \<le> correctAnswer (normalised ! k) \<and> correctAnswer (normalised ! k) < 4
                   \<and> options (normalised ! k) ! nat (correctAnswer (normalised ! k))
                         = decode w (correct_answer (records ! k)))"
    by blast
  have miss: "getCachedQuestions (t_start w) ls = None"
    using empty by (simp add: getCachedQuestions_def getItem_def)
  have attempt: "fetch_attempt w amount ls1
                   = (Inr sorted_set, cacheQuestions (t_settled w) sorted_set ls1)"
    using net status bodies five fmt records
    by (simp add: fetch_attempt_def or_empty_def Let_def sorted_set_def)
  have out: "fetchQuestions w amount ls =
               \<lparr>returned = Inr sorted_set,
                storage = cacheQuestions (t_settled w) sorted_set ls1, requests = 3\<rparr>"
    using miss allowed attempt by (simp add: fetchQuestions_def)
  have cache: "items (cacheQuestions (t_settled w) sorted_set ls1) CACHE_KEY
                  = Some (Json sorted_set)
              \<and> items (cacheQuestions (t_settled w) sorted_set ls1) CACHE_TIMESTAMP_KEY
                  = Some (Text (toString (Num (t_settled w))))
              \<and> getCachedQuestions (t_settled w) (cacheQuestions (t_settled w) sorted_set ls1)
                  = Some sorted_set"
    if store: "available ls \<and> \<not> full ls CACHE_KEY \<and> \<not> full ls CACHE_TIMESTAMP_KEY"
  proof -
    have st1: "available ls1" "\<not> full ls1 CACHE_KEY" "\<not> full ls1 CACHE_TIMESTAMP_KEY"
      using shouldUseApi_flags [OF allowed] store by simp_all
    have cached: "cacheQuestions (t_settled w) sorted_set ls1 =
           ls1\<lparr>items := (items ls1)(CACHE_KEY \<mapsto> Json sorted_set,
                     CACHE_TIMESTAMP_KEY \<mapsto> Text (toString (Num (t_settled w))))\<rparr>"
      by (rule cacheQuestions_working [OF st1])
    show ?thesis
      unfolding cached using st1(1) key_neq
      by (simp add: getCachedQuestions_def getItem_def toString_nonempty parseInt_toString
          CACHE_EXPIRY_def del: toString.simps)
  qed
  have r1: "returned (fetchQuestions w amount ls) = Inr (sort_key value' normalised)"
    and r5: "requests (fetchQuestions w amount ls) = 3"
    and r6: "storage (fetchQuestions w amount ls)
               = cacheQuestions (t_settled w) (sort_key value' normalised) ls1"
    by (simp_all add: out sorted_set_def)
  have r2: "length (sort_key value' normalised) = 15" using len by simp
  have r3: "sorted (map value' (sort_key value' normalised))" by simp
  have r4: "mset (sort_key value' normalised) = mset normalised" by simp
  have r7: "(available ls \<and> \<not> full ls CACHE_KEY \<and> \<not> full ls CACHE_TIMESTAMP_KEY \<longrightarrow>
                items (storage (fetchQuestions w amount ls)) CACHE_KEY
                  = Some (Json (sort_key value' normalised))
              \<and> items (storage (fetchQuestions w amount ls)) CACHE_TIMESTAMP_KEY
                  = Some (Text (toString (Num (t_settled w))))
              \<and> getCachedQuestions (t_settled w) (storage (fetchQuestions w amount ls))
                  = Some (sort_key value' normalised))"
    using cache unfolding out sorted_set_def by simp
  show ?thesis
    by (intro exI [of _ normalised] conjI) (rule len all_fields r1 r2 r3 r4 r5 r6 r7)+
qed


theorem live_fetch_sorted_and_cached_witness:
  "\<exists>normalised.
      returned (fetchQuestions live_world 15 fresh_store) = Inr (sort_key value' normalised)
    \<and> length (sort_key value' normalised) = 15
    \<and> sorted (map value' (sort_key value' normalised))
    \<and> id' (normalised ! 0) = 1
    \<and> question (normalised ! 0) = ''What is the chemical formula of water?''
    \<and> difficulty (normalised ! 0) = ''easy''
    \<and> value' (normalised ! 0) = 100
    \<and> length (options (normalised ! 0)) = 4
    \<and> options (normalised ! 0) ! nat (correctAnswer (normalised ! 0)) = ''H2O''
    \<and> id' (normalised ! 14) = 15
    \<and> difficulty (normalised ! 14) = ''hard''
    \<and> value' (normalised ! 14) = 1000000
    \<and> items (storage (fetchQuestions live_world 15 fresh_store)) CACHE_KEY
          = Some (Json (sort_key value' normalised))"
proof -
  define ls1 where "ls1 = snd (shouldUseApi (t_start live_world) fresh_store)"
  define records where
    "records = replicate 5 raw_example
                 @ replicate 5 (raw_example\<lparr>api_difficulty := ''medium''\<rparr>)
                 @ replicate 5 (raw_example\<lparr>api_difficulty := ''hard''\<rparr>)"
  have empty: "items fresh_store CACHE_KEY = None"
    by (simp add: fresh_store_def)
  have "fst (shouldUseApi (t_start live_world) fresh_store)"
    by (simp add: shouldUseApi_working fresh_store_def or_zero_def parseInt_zero Let_def
        del: toString.simps)
  then have allowed: "shouldUseApi (t_start live_world) fresh_store = (True, ls1)"
    by (simp add: ls1_def prod_eq_iff)
  have net: "network live_world =
               Inr (batch_of raw_example, batch_of (raw_example\<lparr>api_difficulty := ''medium''\<rparr>),
                    batch_of (raw_example\<lparr>api_difficulty := ''hard''\<rparr>))"
    by (simp add: live_world_def)
  have status: "status (batch_of q) \<noteq> 429" for q by (simp add: batch_of_def)
  have body: "data (batch_of q) = Some \<lparr>response_code = 0, results = Some (replicate 5 q)\<rparr>"
    for q by (simp add: batch_of_def)
  have norm: "\<forall>q \<in> set records.
                 correct_answer q \<noteq> [] \<and> length (incorrect_answers q) = 3
                 \<and> api_difficulty q \<in> {''easy'', ''medium'', ''hard''}"
    by (simp add: records_def raw_example_def)
  have first: "records ! 0 = raw_example"
    and last: "records ! 14 = raw_example\<lparr>api_difficulty := ''hard''\<rparr>"
    by (simp_all add: records_def nth_append)
  have draws: "\<forall>i. 0 \<le> rnd_options live_world k i \<and> rnd_options live_world k i < 1" for k
    by (simp add: live_world_def rnd_half_def)
  have store: "available fresh_store \<and> \<not> full fresh_store CACHE_KEY
                 \<and> \<not> full fresh_store CACHE_TIMESTAMP_KEY"
    by (simp add: fresh_store_def)
  have dec: "decode live_world = id" by (simp add: live_world_def)
  have five: "length (replicate 5 q) = 5" for q :: ApiQuestion by simp
  show ?thesis
    using live_fetch_sorted_and_cached [OF empty allowed net status status status
        body body body five five five records_def norm, of 15]
    apply (elim exE conjE)
    subgoal for normalised
      apply (frule spec [of _ 0])
      apply (drule spec [of _ 14])
      apply (rule exI [of _ normalised])
      apply (auto simp add: first last draws store dec raw_example_def
               simp del: toString.simps sort_key_simps)
      done
    done
qed

section \<open>Acquisition: an error that escapes\<close>

lemma getCached_exhausted: "getCachedQuestions t exhausted_store = None"
  by (simp add: getCachedQuestions_def getItem_def exhausted_store_def)

lemma shouldUseApi_exhausted: "shouldUseApi t exhausted_store = (True, exhausted_store)"
  by (simp add: shouldUseApi_def getItem_def setItem_def exhausted_store_def or_zero_def
      parseInt_zero Let_def del: toString.simps)

lemma handleRateLimiting_exhausted: "handleRateLimiting t exhausted_store = Inl QuotaExceededError"
  by (simp add: handleRateLimiting_def setItem_def exhausted_store_def del: toString.simps)

lemma network_rate_limited: "network rate_limited_world = Inl (AxiosError (Some 429))"
  by (simp add: rate_limited_world_def)

lemma fetch_attempt_rate_limit:
  assumes "fetch_attempt w amount ls = (Inl err, ls')" and "is_rate_limit err"
  shows "network w = Inl (AxiosError (Some 429)) \<and> ls' = ls"
proof -
  have err: "err = AxiosError (Some 429)"
    using assms(2) by (cases err rule: is_rate_limit.cases) simp_all
  have no_store_error: "handleRateLimiting t ls0 \<noteq> Inl (AxiosError st)" for t ls0 st
    by (simp add: handleRateLimiting_def setItem_def)
  have no_format_error: "formatQuestion dec r q i \<noteq> Inl (AxiosError st)" for dec r q i st
    by (simp add: formatQuestion_def Let_def split: option.splits)
  have no_map_error: "formatQuestions dec rnd i qs \<noteq> Inl (AxiosError st)" for dec rnd i qs st
  proof (induction qs arbitrary: i)
    case Nil
    then show ?case by simp
  next
    case (Cons q qs)
    then show ?case
      using no_format_error [of dec "rnd i" q i st] by (auto split: sum.splits)
  qed
  show ?thesis
    using assms(1) no_store_error no_map_error unfolding err fetch_attempt_def
    by (auto simp: Let_def split: sum.splits prod.splits if_splits option.splits)
qed

text \<open>
  The only way out: on a store without an entry under the cache key, \<^verbatim>\<open>fetchQuestions\<close>
  rejects exactly when the throttle allows the fetch, axios rejects with status 429, and
  the store refuses the write of the cooldown deadline.
\<close>

lemma fetchQuestions_rejects_iff:
  assumes "items ls CACHE_KEY = None"
  shows "(\<exists>e. returned (fetchQuestions w amount ls) = Inl e) \<longleftrightarrow>
       fst (shouldUseApi (t_start w) ls)
     \<and> network w = Inl (AxiosError (Some 429))
     \<and> (\<not> available ls \<or> full ls API_COOLDOWN_KEY)"
proof -
  have None: "getCachedQuestions (t_start w) ls = None"
    using assms by (simp add: getCachedQuestions_def getItem_def)
  obtain b ls1 where s: "shouldUseApi (t_start w) ls = (b, ls1)" by (cases "shouldUseApi (t_start w) ls")
  note flags = shouldUseApi_flags [OF s]
  show ?thesis
  proof (cases b)
    case False
    then show ?thesis using None s by (simp add: fetchQuestions_def)
  next
    case True
    obtain r ls2 where a: "fetch_attempt w amount ls1 = (r, ls2)" by (cases "fetch_attempt w amount ls1")
    show ?thesis
    proof (cases r)
      case (Inr qs)
      then have "network w \<noteq> Inl (AxiosError (Some 429))"
        using a by (auto simp: fetch_attempt_def)
      then show ?thesis using None s True a Inr by (simp add: fetchQuestions_def)
    next
      case (Inl err)
      show ?thesis
      proof (cases "is_rate_limit err")
        case False
        then have "network w \<noteq> Inl (AxiosError (Some 429))"
          using a Inl by (auto simp: fetch_attempt_def)
        then show ?thesis using None s True a Inl False by (simp add: fetchQuestions_def)
      next
        case rate: True
        from fetch_attempt_rate_limit [OF a [unfolded Inl] rate]
        have net: "network w = Inl (AxiosError (Some 429))" and ls2: "ls2 = ls1" by simp_all
        show ?thesis
          using None s True a Inl rate net flags unfolding ls2
          by (auto simp: fetchQuestions_def handleRateLimiting_def setItem_def
              split: sum.splits)
      qed
    qed
  qed
qed

text \<open>
  Claim C1 does not hold of the code. \<^verbatim>\<open>getCachedQuestions\<close>, \<^verbatim>\<open>cacheQuestions\<close> and
  \<^verbatim>\<open>shouldUseApi\<close> guard their store accesses with \<^verbatim>\<open>try\<close>, \<^verbatim>\<open>handleRateLimiting\<close> does
  not, and the \<^verbatim>\<open>catch\<close> block of \<^verbatim>\<open>fetchQuestions\<close> calls it unguarded. On a store whose
  quota is used up, when the server answers 429 and axios rejects the request, the
  \<^verbatim>\<open>setItem\<close> of the cooldown deadline throws inside the \<^verbatim>\<open>catch\<close> block and
  \<^verbatim>\<open>fetchQuestions\<close> rejects with a \<open>QuotaExceededError\<close> instead of resolving with a
  fallback sample.
\<close>

theorem fetchQuestions_rejects_when_cooldown_write_throws:
  "returned (fetchQuestions rate_limited_world 15 exhausted_store) = Inl QuotaExceededError"
  by (simp add: fetchQuestions_def getCached_exhausted shouldUseApi_exhausted fetch_attempt_def
      network_rate_limited handleRateLimiting_exhausted)

section \<open>Payout on a wrong answer\<close>

lemma pool_take_15: "index_at (take 15 getAllFallbackQuestions) k
    = (if k < 15 then Some (getAllFallbackQuestions ! k) else None)"
  by (simp add: index_at_def pool_length)

lemma finalMoney_is_payout_of_next: "finalMoney k = Some (guaranteed_payout (Suc k))"
  by (simp add: finalMoney_def guaranteed_payout_def milestones_def moneyLadder_def index_at_def)

text \<open>
  Claim C9 does not hold of the code. The game-over loop compares the index of the
  question being answered with \<open>m - 1\<close>, so a milestone counts as soon as its own
  question is reached, not once it is answered. A player who answers question 5 (index 4)
  wrongly has completed four questions and no milestone, and the spec's payout is 0; the
  code ends the game with \<^verbatim>\<open>earnedMoney = 1000\<close>, the ladder value of milestone 5.
\<close>

theorem wrong_answer_at_milestone_question_pays_it:
  "(\<exists>g'. confirmAnswer (wrong_pick_at 4) = Inr g' \<and> gameState g' = Result
          \<and> earnedMoney g' = Some 1000)
   \<and> guaranteed_payout 4 = 0"
proof -
  have sel: "selectedAnswer (wrong_pick_at 4)
               = Some (correctAnswer (getAllFallbackQuestions ! 4) + 1)"
    and ix: "currentQuestionIndex (wrong_pick_at 4) = 4"
    by (simp_all add: wrong_pick_at_def)
  have cur: "index_at (questions (wrong_pick_at 4)) 4 = Some (getAllFallbackQuestions ! 4)"
    by (simp add: wrong_pick_at_def pool_take_15)
  have wrong: "correctAnswer (getAllFallbackQuestions ! 4) + 1
                 \<noteq> correctAnswer (getAllFallbackQuestions ! 4)"
    by simp
  have paid: "finalMoney 4 = Some 1000"
    by (simp add: finalMoney_def milestones_def moneyLadder_def index_at_def)
  have owed: "guaranteed_payout 4 = 0"
    by (simp add: guaranteed_payout_def milestones_def)
  have "confirmAnswer (wrong_pick_at 4)
          = Inr ((wrong_pick_at 4)\<lparr>isAnswerConfirmed := True, earnedMoney := Some 1000,
                                    gameState := Result\<rparr>)"
    using wrong by (simp add: confirmAnswer_def sel ix cur paid Let_def)
  then show ?thesis using owed by simp
qed

section \<open>The 50:50 lifeline\<close>

lemma wrong_options_distinct: "distinct (filter (\<lambda>idx. idx \<noteq> c) [0, 1, 2, 3 :: int])"
  by simp

lemma wrong_options_length: "3 \<le> length (filter (\<lambda>idx. idx \<noteq> c) [0, 1, 2, 3 :: int])"
  by simp

lemma wrong_options_set:
  "set (filter (\<lambda>idx. idx \<noteq> c) [0, 1, 2, 3 :: int]) = {0, 1, 2, 3} - {c}"
  by (simp only: set_filter) auto

text \<open>
  Claim C10. When the 50:50 lifeline is still available, the answer is not confirmed and
  there is a current question, \<^verbatim>\<open>useFiftyFifty\<close> eliminates exactly two different option
  indices, both taken from \<open>{0, 1, 2, 3}\<close> without the current question's
  \<^verbatim>\<open>correctAnswer\<close>; the correct option is never eliminated, and the lifeline is used up.
  This holds for every order the random sort may leave, that is for every \<open>sortRandom\<close>
  that returns a permutation of its argument.
\<close>

theorem fifty_fifty_eliminates_two_wrong:
  assumes "fifty (lifeline g)" and "\<not> isAnswerConfirmed g"
    and "currentQuestionIndex g < length (questions g)"
    and "\<forall>xs. mset (sortRandom xs) = mset xs"
  shows "\<exists>g'. useFiftyFifty sortRandom g = Inr g'
           \<and> length (eliminatedOptions g') = 2
           \<and> distinct (eliminatedOptions g')
           \<and> set (eliminatedOptions g')
                \<subseteq> {0, 1, 2, 3} - {correctAnswer (questions g ! currentQuestionIndex g)}
           \<and> correctAnswer (questions g ! currentQuestionIndex g) \<notin> set (eliminatedOptions g')
           \<and> \<not> fifty (lifeline g')"
proof -
  define c where "c = correctAnswer (questions g ! currentQuestionIndex g)"
  define wrong where "wrong = filter (\<lambda>idx. idx \<noteq> c) [0, 1, 2, 3 :: int]"
  define s where "s = sortRandom wrong"
  have ms: "mset s = mset wrong" using assms(4) by (simp add: s_def)
  have d: "distinct s"
    using mset_eq_imp_distinct_iff [OF ms] wrong_options_distinct [of c] by (simp add: wrong_def)
  have l: "3 \<le> length s"
    using mset_eq_length [OF ms] wrong_options_length [of c] by (simp add: wrong_def)
  have "set s = {0, 1, 2, 3} - {c}"
    using mset_eq_setD [OF ms] wrong_options_set [of c] by (simp only: wrong_def)
  then have sub: "set (take 2 s) \<subseteq> {0, 1, 2, 3} - {c}"
    using set_take_subset [of 2 s] by blast
  then have notin: "c \<notin> set (take 2 s)" by blast
  have d2: "distinct (take 2 s)" using d by simp
  have l2: "length (take 2 s) = 2" using l by simp
  have res: "useFiftyFifty sortRandom g =
          Inr (g\<lparr>eliminatedOptions := take 2 s, lifeline := (lifeline g)\<lparr>fifty := False\<rparr>\<rparr>)"
    using assms(1-3) by (simp add: useFiftyFifty_def index_at_def Let_def s_def wrong_def c_def)
  show ?thesis
    unfolding res c_def [symmetric] using d2 l2 sub notin by simp
qed


theorem fifty_fifty_eliminates_two_wrong_witness:
  "\<exists>g'. useFiftyFifty rev (wrong_pick_at 4) = Inr g'
        \<and> length (eliminatedOptions g') = 2
        \<and> correctAnswer (questions (wrong_pick_at 4) ! 4) \<notin> set (eliminatedOptions g')"
proof -
  have len: "length (questions (wrong_pick_at 4)) = 15"
    unfolding wrong_pick_at_def by (simp add: pool_length)
  have ix: "currentQuestionIndex (wrong_pick_at 4) = 4" by (simp add: wrong_pick_at_def)
  have pre: "fifty (lifeline (wrong_pick_at 4))" "\<not> isAnswerConfirmed (wrong_pick_at 4)"
    "currentQuestionIndex (wrong_pick_at 4) < length (questions (wrong_pick_at 4))"
    unfolding len ix by (simp_all add: wrong_pick_at_def)
  have perm: "\<forall>xs :: int list. mset (rev xs) = mset xs" by simp
  show ?thesis
    using fifty_fifty_eliminates_two_wrong [OF pre perm] unfolding ix by blast
qed

end
